theory Spec2Isabelle
  imports Complex_Main
begin

section \<open>JavaScript values\<close>

text \<open>
  The simulator is JavaScript. Its numbers are modelled as mathematical reals extended
  with the three special values the code can meet (\<open>Infinity\<close>, \<open>-Infinity\<close>,
  \<open>NaN\<close>): rounding of IEEE doubles is not part of the model. Counters that the
  code initialises to \<open>0\<close> and only ever increments are natural numbers (a double
  counts exactly up to \<open>2^53\<close>, far beyond any run).
\<close>

datatype jsnumber = Fin real | PosInf | NegInf | NaN

datatype jsval = JUndefined | JNull | JBool bool | JNum jsnumber | JStr string

text \<open>The relational operators \<open><\<close> and \<open><=\<close> on numbers: any comparison with \<open>NaN\<close> is false.\<close>

fun js_lt :: "jsnumber \<Rightarrow> jsnumber \<Rightarrow> bool" where
  "js_lt NaN _ = False"
| "js_lt _ NaN = False"
| "js_lt (Fin x) (Fin y) = (x < y)"
| "js_lt (Fin _) PosInf = True"
| "js_lt (Fin _) NegInf = False"
| "js_lt PosInf _ = False"
| "js_lt NegInf NegInf = False"
| "js_lt NegInf _ = True"

fun js_le :: "jsnumber \<Rightarrow> jsnumber \<Rightarrow> bool" where
  "js_le NaN _ = False"
| "js_le _ NaN = False"
| "js_le (Fin x) (Fin y) = (x \<le> y)"
| "js_le (Fin _) PosInf = True"
| "js_le (Fin _) NegInf = False"
| "js_le PosInf PosInf = True"
| "js_le PosInf _ = False"
| "js_le NegInf _ = True"

text \<open>\<open>a >= b\<close> is \<open>b <= a\<close> in JavaScript (false when either side is \<open>NaN\<close>).\<close>

definition js_ge :: "jsnumber \<Rightarrow> jsnumber \<Rightarrow> bool" where
  "js_ge a b = js_le b a"

text \<open>
  \<open>ToBoolean\<close>: the falsy values are \<open>undefined\<close>, \<open>null\<close>, \<open>false\<close>,
  \<open>0\<close>, \<open>NaN\<close> and the empty string.
\<close>

fun truthy :: "jsval \<Rightarrow> bool" where
  "truthy JUndefined = False"
| "truthy JNull = False"
| "truthy (JBool b) = b"
| "truthy (JNum (Fin x)) = (x \<noteq> 0)"
| "truthy (JNum NaN) = False"
| "truthy (JNum _) = True"
| "truthy (JStr s) = (s \<noteq> [])"

text \<open>
  \<open>ToNumber\<close>. The conversion of a string (the \<open>StringToNumber\<close> grammar of the
  language) is not part of the repository; it is the parameter \<open>str2num\<close>.
\<close>

fun to_number :: "(string \<Rightarrow> jsnumber) \<Rightarrow> jsval \<Rightarrow> jsnumber" where
  "to_number str2num JUndefined = NaN"
| "to_number str2num JNull = Fin 0"
| "to_number str2num (JBool b) = (if b then Fin 1 else Fin 0)"
| "to_number str2num (JNum n) = n"
| "to_number str2num (JStr s) = str2num s"

text \<open>
  The postfix increment \<open>x++\<close> on a property that holds a number or is absent
  (\<open>None\<close>, read as \<open>undefined\<close>): the new value is \<open>ToNumber(x) + 1\<close>, and
  \<open>ToNumber(undefined)\<close> is \<open>NaN\<close>.
\<close>

fun js_incr :: "jsnumber option \<Rightarrow> jsnumber option" where
  "js_incr None = Some NaN"
| "js_incr (Some (Fin x)) = Some (Fin (x + 1))"
| "js_incr (Some n) = Some n"


text \<open>
  What a call can throw. Reading a property of \<open>null\<close> or destructuring \<open>undefined\<close>
  throws a \<open>TypeError\<close>. A division by zero does not throw in JavaScript; the model of
  the ray-casting test reports it as \<open>DivisionByZero\<close> (see the geometry below).
\<close>

datatype error = TypeError | DivisionByZero

section \<open>The simulation driver (\<open>class OceanSimulation\<close>)\<close>

text \<open>
  The object literal of \<open>stats\<close>. The property \<open>coastal\<close> is optional because the
  constructor's literal does not have it; every other property is a counter that starts
  at \<open>0\<close>, and \<open>avgTemp\<close> a real.
\<close>

record stats =
  land :: nat
  coastal :: "jsnumber option"
  water :: nat
  avgTemp :: real
  totalAttempts :: nat
  landAttempts :: nat

text \<open>One recorded day: the object literal built in \<open>simulateDay\<close>.\<close>

record Drop =
  day :: nat
  lon :: real
  lat :: real
  locationType :: jsval
  distanceKm :: jsval
  temp :: real

text \<open>
  What the callback \<open>onCheckLand\<close> returns: an object with the properties \<open>type\<close>
  and \<open>distanceKm\<close> (the current interface), \<open>null\<close>, or a value that is not an
  object (the older interface, and the default callback, which returns \<open>false\<close>).
\<close>

datatype terrainInfo =
  TerrainObj jsval jsval
| TerrainNull
| TerrainStr string
| TerrainBool bool
| TerrainNum jsnumber
| TerrainUndefined

text \<open>\<open>typeof terrainInfo === 'object'\<close>: true of an object, and of \<open>null\<close>.\<close>

fun is_object :: "terrainInfo \<Rightarrow> bool" where
  "is_object (TerrainObj _ _) = True"
| "is_object TerrainNull = True"
| "is_object _ = False"

text \<open>
  \<open>terrainInfo.type\<close> and \<open>terrainInfo.distanceKm\<close>: the property of an object,
  a \<open>TypeError\<close> on \<open>null\<close>, and \<open>undefined\<close> on any other value.
\<close>

fun obj_type :: "terrainInfo \<Rightarrow> error + jsval" where
  "obj_type (TerrainObj t _) = Inr t"
| "obj_type TerrainNull = Inl TypeError"
| "obj_type _ = Inr JUndefined"

fun obj_distanceKm :: "terrainInfo \<Rightarrow> error + jsval" where
  "obj_distanceKm (TerrainObj _ d) = Inr d"
| "obj_distanceKm TerrainNull = Inl TypeError"
| "obj_distanceKm _ = Inr JUndefined"

text \<open>The answer itself, as a value (an object is never read this way).\<close>

fun as_value :: "terrainInfo \<Rightarrow> jsval" where
  "as_value (TerrainStr s) = JStr s"
| "as_value (TerrainBool b) = JBool b"
| "as_value (TerrainNum n) = JNum n"
| "as_value TerrainNull = JNull"
| "as_value _ = JUndefined"

text \<open>
  The driver's fields. The callbacks \<open>onTick\<close> and \<open>onFinish\<close> only observe the
  state and are left out; \<open>onCheckLand\<close> is a pure function of the point. The
  class is defined twice, with the same text, in \<^verbatim>\<open>simulation.js\<close> and in
  \<^verbatim>\<open>app.js\<close>; this is the one model of both.
\<close>

record sim =
  totalDays :: jsval
  currentDay :: nat
  delay :: real
  isRunning :: bool
  drops :: "Drop list"
  stats :: stats
  onCheckLand :: "real \<Rightarrow> real \<Rightarrow> terrainInfo"

record config =
  cfg_totalDays :: jsval
  cfg_onCheckLand :: "(real \<Rightarrow> real \<Rightarrow> terrainInfo) option"

definition OceanSimulation :: "config \<Rightarrow> sim" where
  "OceanSimulation cfg =
     \<lparr> totalDays = (if truthy (cfg_totalDays cfg) then cfg_totalDays cfg else JNum (Fin 1825)),
       currentDay = 0,
       delay = 50,
       isRunning = False,
       drops = [],
       stats = \<lparr> land = 0, coastal = None, water = 0, avgTemp = 0,
                 totalAttempts = 0, landAttempts = 0 \<rparr>,
       onCheckLand = (case cfg_onCheckLand cfg of
                        None \<Rightarrow> (\<lambda>_ _. TerrainBool False)
                      | Some f \<Rightarrow> f) \<rparr>"

definition pause :: "sim \<Rightarrow> sim" where
  "pause s = s\<lparr>isRunning := False\<rparr>"

definition reset :: "sim \<Rightarrow> sim" where
  "reset s = s\<lparr> isRunning := False,
               currentDay := 0,
               drops := [],
               stats := \<lparr> land = 0, coastal = Some (Fin 0), water = 0, avgTemp = 0,
                           totalAttempts = 0, landAttempts = 0 \<rparr> \<rparr>"

definition setSpeed :: "real \<Rightarrow> sim \<Rightarrow> sim" where
  "setSpeed speedVal s = s\<lparr>delay := 200 - ((speedVal / 100) * 199)\<rparr>"

definition calculateTemperature :: "real \<Rightarrow> real" where
  "calculateTemperature la = (let latRad = la * (pi / 180) in - 2 + (32 * cos latRad))"

text \<open>
  The methods that draw random points mutate the driver in place and then return or
  throw. Their models return the state the call leaves behind, paired with how it ended:
  \<open>None\<close> when it returned, \<open>Some e\<close> when it threw \<open>e\<close>.

  The retry loop of \<open>simulateDay\<close>. \<open>rnd k\<close> is the pair \<open>(u, v)\<close> that the two
  calls of \<open>Math.random()\<close> return in the attempt that starts with \<open>attempts = k\<close>.
  The loop returns the state it leaves and either the error thrown by reading the
  callback's answer or the local \<open>drop\<close> (\<open>None\<close> for \<open>null\<close>).
  \<open>Math.random()\<close> draws from \<open>[0, 1)\<close>; nothing below depends on that range.
\<close>

function retry_loop ::
  "(nat \<Rightarrow> real \<times> real) \<Rightarrow> nat \<Rightarrow> sim \<Rightarrow> sim \<times> (error + Drop option)" where
  "retry_loop rnd attempts s =
     (if attempts < 100 then
        (let attempts' = attempts + 1;
             u = fst (rnd attempts);
             v = snd (rnd attempts);
             latRad = arcsin (2 * u - 1);
             lonRad = 2 * pi * v;
             la = latRad * (180 / pi);
             lo = (lonRad * (180 / pi)) - 180;
             terrain = onCheckLand s lo la
         in case (if is_object terrain then obj_type terrain else Inr (as_value terrain)) of
              Inl e \<Rightarrow> (s, Inl e)
            | Inr locType \<Rightarrow>
               (case (if is_object terrain then obj_distanceKm terrain else Inr JNull) of
                  Inl e \<Rightarrow> (s, Inl e)
                | Inr dKm \<Rightarrow>
                   (let s1 = s\<lparr>stats := (stats s)\<lparr>totalAttempts := totalAttempts (stats s) + 1\<rparr>\<rparr>
                    in if locType = JStr ''LAND'' then
                         retry_loop rnd attempts'
                           (s1\<lparr>stats := (stats s1)\<lparr>landAttempts := landAttempts (stats s1) + 1\<rparr>\<rparr>)
                       else
                         (let s2 = s1\<lparr>currentDay := currentDay s1 + 1\<rparr>;
                              t = calculateTemperature la
                          in (s2, Inr (Some \<lparr> day = currentDay s2, lon = lo, lat = la,
                                               locationType = locType, distanceKm = dKm,
                                               temp = t \<rparr>))))))
      else (s, Inr None))"
  by pat_completeness auto
termination
  by (relation "measure (\<lambda>(rnd, attempts, s). 100 - attempts)") auto

definition simulateDay :: "(nat \<Rightarrow> real \<times> real) \<Rightarrow> sim \<Rightarrow> sim \<times> error option" where
  "simulateDay rnd s =
     (case retry_loop rnd 0 s of
        (s', Inl e) \<Rightarrow> (s', Some e)
      | (s', Inr None) \<Rightarrow> (s', None)
      | (s', Inr (Some d)) \<Rightarrow>
          (let s1 = s'\<lparr>drops := drops s' @ [d]\<rparr>;
               s2 = s1\<lparr>stats := (stats s1)\<lparr>water := water (stats s1) + 1\<rparr>\<rparr>;
               s3 = (if locationType d = JStr ''COASTAL''
                     then s2\<lparr>stats := (stats s2)\<lparr>coastal := js_incr (coastal (stats s2))\<rparr>\<rparr>
                     else s2)
           in (s3\<lparr>stats := (stats s3)\<lparr>avgTemp :=
                   avgTemp (stats s3) + (temp d - avgTemp (stats s3)) / real (currentDay s3)\<rparr>\<rparr>,
               None)))"

text \<open>
  One invocation of \<open>loop\<close>: the re-invocation through \<open>setTimeout\<close> is the next
  invocation, made by the host. When \<open>simulateDay\<close> throws, so do \<open>loop\<close> and
  \<open>start\<close>.
\<close>

definition loop ::
  "(string \<Rightarrow> jsnumber) \<Rightarrow> (nat \<Rightarrow> real \<times> real) \<Rightarrow> sim \<Rightarrow> sim \<times> error option" where
  "loop str2num rnd s =
     (if \<not> isRunning s then (s, None)
      else if js_ge (Fin (real (currentDay s))) (to_number str2num (totalDays s))
      then (s\<lparr>isRunning := False\<rparr>, None)
      else simulateDay rnd s)"

definition start ::
  "(string \<Rightarrow> jsnumber) \<Rightarrow> (nat \<Rightarrow> real \<times> real) \<Rightarrow> sim \<Rightarrow> sim \<times> error option" where
  "start str2num rnd s =
     (if \<not> isRunning s \<and> js_lt (Fin (real (currentDay s))) (to_number str2num (totalDays s))
      then loop str2num rnd (s\<lparr>isRunning := True\<rparr>)
      else (s, None))"

section \<open>Geometry (\<^verbatim>\<open>app.js\<close>)\<close>

text \<open>
  Reading an array element outside the array gives \<open>undefined\<close>, and destructuring
  \<open>undefined\<close> into a pair throws a \<open>TypeError\<close>. A division by zero does not throw
  in JavaScript (it gives an infinity or \<open>NaN\<close>); the model of the ray-casting test
  reports it as \<open>DivisionByZero\<close> all the same, so that whether the test ever divides
  by zero is visible in its result.
\<close>

definition js_index :: "'a list \<Rightarrow> int \<Rightarrow> 'a option" where
  "js_index xs i = (if 0 \<le> i \<and> i < int (length xs) then Some (xs ! nat i) else None)"

text \<open>\<open>Math.atan2(y, x)\<close> on reals (signed zeros are not modelled).\<close>

definition Math_atan2 :: "real \<Rightarrow> real \<Rightarrow> real" where
  "Math_atan2 y x =
     (if 0 < x then arctan (y / x)
      else if x < 0 then (if 0 \<le> y then arctan (y / x) + pi else arctan (y / x) - pi)
      else if 0 < y then pi / 2
      else if y < 0 then - (pi / 2)
      else 0)"

text \<open>
  \<open>Math.sqrt\<close> is \<open>sqrt\<close>: both arguments it gets in \<open>haversineDistance\<close> lie in
  \<open>[0, 1]\<close> (lemma \<open>haversine_a_range\<close> below), where the two agree.
\<close>

definition haversineDistance :: "real \<Rightarrow> real \<Rightarrow> real \<Rightarrow> real \<Rightarrow> real" where
  "haversineDistance lat1 lon1 lat2 lon2 =
     (let R = 6371;
          dLat = (lat2 - lat1) * pi / 180;
          dLon = (lon2 - lon1) * pi / 180;
          a = (sin (dLat / 2))\<^sup>2 +
              cos (lat1 * pi / 180) * cos (lat2 * pi / 180) * (sin (dLon / 2))\<^sup>2
      in R * 2 * Math_atan2 (sqrt a) (sqrt (1 - a)))"

definition pointToSegmentDistance ::
  "real \<Rightarrow> real \<Rightarrow> real \<Rightarrow> real \<Rightarrow> real \<Rightarrow> real \<Rightarrow> real" where
  "pointToSegmentDistance pLat pLon aLat aLon bLat bLon =
     (let segLen = haversineDistance aLat aLon bLat bLon
      in if segLen < 1 / 1000 then haversineDistance pLat pLon aLat aLon
         else
           (let t = max 0 (min 1 (((pLat - aLat) * (bLat - aLat) + (pLon - aLon) * (bLon - aLon))
                                   / (segLen * segLen * (1 / 10000))));
                projLat = aLat + t * (bLat - aLat);
                projLon = aLon + t * (bLon - aLon)
            in haversineDistance pLat pLon projLat projLon))"

text \<open>
  The \<open>for\<close> loop of \<open>getDistanceToCoast\<close>, with \<open>step = 10\<close>. The points of
  \<open>coastlineCoords\<close> are pairs \<open>[lon, lat]\<close>.
\<close>

function coast_loop ::
  "(real \<times> real) list \<Rightarrow> real \<Rightarrow> real \<Rightarrow> nat \<Rightarrow> jsnumber \<Rightarrow> error + jsnumber" where
  "coast_loop coords la lo i minDist =
     (if int i < int (length coords) - 1 then
        (case js_index coords (int i) of
           None \<Rightarrow> Inl TypeError
         | Some (aLon, aLat) \<Rightarrow>
            (case js_index coords (min (int i + 10) (int (length coords) - 1)) of
               None \<Rightarrow> Inl TypeError
             | Some (bLon, bLat) \<Rightarrow>
                 (let dist = pointToSegmentDistance la lo aLat aLon bLat bLon
                  in coast_loop coords la lo (i + 10)
                       (if js_lt (Fin dist) minDist then Fin dist else minDist))))
      else Inr minDist)"
  by pat_completeness auto
termination
  by (relation "measure (\<lambda>(coords, la, lo, i, minDist). length coords - i)") auto

text \<open>The global \<open>coastlineCoords\<close> is \<open>null\<close> (\<open>None\<close>) until the data is loaded.\<close>

definition getDistanceToCoast ::
  "(real \<times> real) list option \<Rightarrow> real \<Rightarrow> real \<Rightarrow> error + jsnumber" where
  "getDistanceToCoast coastlineCoords la lo =
     (case coastlineCoords of
        None \<Rightarrow> Inr PosInf
      | Some coords \<Rightarrow> coast_loop coords la lo 0 PosInf)"

text \<open>
  The \<open>for\<close> loop of \<open>isPointInPolygon\<close>: \<open>i\<close> runs from \<open>0\<close>, \<open>j\<close> starts at
  \<open>polygon.length - 1\<close> and then follows \<open>i\<close>. The operator \<open>&&\<close> evaluates its
  right side, and so the division, only when its left side is true.
\<close>

function ray_loop ::
  "(real \<times> real) list \<Rightarrow> real \<Rightarrow> real \<Rightarrow> nat \<Rightarrow> int \<Rightarrow> bool \<Rightarrow> error + bool" where
  "ray_loop polygon lo la i j inside =
     (if i < length polygon then
        (case js_index polygon (int i) of
           None \<Rightarrow> Inl TypeError
         | Some (xi, yi) \<Rightarrow>
            (case js_index polygon j of
               None \<Rightarrow> Inl TypeError
             | Some (xj, yj) \<Rightarrow>
                 if (yi > la) \<noteq> (yj > la) then
                   (if yj - yi = 0 then Inl DivisionByZero
                    else ray_loop polygon lo la (i + 1) (int i)
                           (if lo < (xj - xi) * (la - yi) / (yj - yi) + xi
                            then \<not> inside else inside))
                 else ray_loop polygon lo la (i + 1) (int i) inside))
      else Inr inside)"
  by pat_completeness auto
termination
  by (relation "measure (\<lambda>(polygon, lo, la, i, j, inside). length polygon - i)") auto

definition isPointInPolygon :: "real \<Rightarrow> real \<Rightarrow> (real \<times> real) list \<Rightarrow> error + bool" where
  "isPointInPolygon lo la polygon = ray_loop polygon lo la 0 (int (length polygon) - 1) False"

text \<open>The \<open>for ... of\<close> loop of \<open>isOnLandPolygon\<close> over the global \<open>landPolygons\<close>.\<close>

fun polygons_loop :: "(real \<times> real) list list \<Rightarrow> real \<Rightarrow> real \<Rightarrow> error + bool" where
  "polygons_loop [] lo la = Inr False"
| "polygons_loop (polygon # rest) lo la =
     (case isPointInPolygon lo la polygon of
        Inl e \<Rightarrow> Inl e
      | Inr inside \<Rightarrow> if inside then Inr True else polygons_loop rest lo la)"

definition isOnLandPolygon :: "(real \<times> real) list list \<Rightarrow> real \<Rightarrow> real \<Rightarrow> error + bool" where
  "isOnLandPolygon landPolygons lo la =
     (if la < - 80 then Inr True else polygons_loop landPolygons lo la)"

definition ZONE_COASTAL_KM :: real where "ZONE_COASTAL_KM = 1"
definition ZONE_SHELF_KM :: real where "ZONE_SHELF_KM = 100"
definition ZONE_FAR_KM :: real where "ZONE_FAR_KM = 300"

definition getTerrainTypeWithDistance ::
  "(real \<times> real) list option \<Rightarrow> (real \<times> real) list list \<Rightarrow> real \<Rightarrow> real
     \<Rightarrow> error + terrainInfo" where
  "getTerrainTypeWithDistance coastlineCoords landPolygons lo la =
     (case getDistanceToCoast coastlineCoords la lo of
        Inl e \<Rightarrow> Inl e
      | Inr distKm \<Rightarrow>
         (case isOnLandPolygon landPolygons lo la of
            Inl e \<Rightarrow> Inl e
          | Inr onLand \<Rightarrow>
              if onLand then Inr (TerrainObj (JStr ''LAND'') (JNum (Fin 0)))
              else if js_le distKm (Fin ZONE_COASTAL_KM)
                then Inr (TerrainObj (JStr ''COASTAL'') (JNum distKm))
              else if js_le distKm (Fin ZONE_SHELF_KM)
                then Inr (TerrainObj (JStr ''SHELF'') (JNum distKm))
              else if js_le distKm (Fin ZONE_FAR_KM)
                then Inr (TerrainObj (JStr ''FAR'') (JNum distKm))
              else Inr (TerrainObj (JStr ''DEEP_OCEAN'') (JNum distKm))))"

section \<open>Definitions used in the statements\<close>

subsection \<open>One attempt of the retry loop\<close>

text \<open>
  The values that the body of the retry loop computes in the attempt that starts with
  \<open>attempts = k\<close>: the sampled point, what \<open>onCheckLand\<close> returns there, the
  \<open>locationType\<close> and \<open>distanceKm\<close> read from it (or the error that reading them
  throws), and the \<open>drop\<close> built from them.
\<close>

definition sample_lat :: "(nat \<Rightarrow> real \<times> real) \<Rightarrow> nat \<Rightarrow> real" where
  "sample_lat rnd k = arcsin (2 * fst (rnd k) - 1) * (180 / pi)"

definition sample_lon :: "(nat \<Rightarrow> real \<times> real) \<Rightarrow> nat \<Rightarrow> real" where
  "sample_lon rnd k = (2 * pi * snd (rnd k) * (180 / pi)) - 180"

definition sample_terrain :: "sim \<Rightarrow> (nat \<Rightarrow> real \<times> real) \<Rightarrow> nat \<Rightarrow> terrainInfo" where
  "sample_terrain s rnd k = onCheckLand s (sample_lon rnd k) (sample_lat rnd k)"

definition sample_type :: "sim \<Rightarrow> (nat \<Rightarrow> real \<times> real) \<Rightarrow> nat \<Rightarrow> error + jsval" where
  "sample_type s rnd k =
     (if is_object (sample_terrain s rnd k) then obj_type (sample_terrain s rnd k)
      else Inr (as_value (sample_terrain s rnd k)))"

definition sample_dist :: "sim \<Rightarrow> (nat \<Rightarrow> real \<times> real) \<Rightarrow> nat \<Rightarrow> error + jsval" where
  "sample_dist s rnd k =
     (if is_object (sample_terrain s rnd k) then obj_distanceKm (sample_terrain s rnd k)
      else Inr JNull)"

definition sample_drop :: "sim \<Rightarrow> (nat \<Rightarrow> real \<times> real) \<Rightarrow> nat \<Rightarrow> error + Drop" where
  "sample_drop s rnd k =
     (case sample_type s rnd k of
        Inl e \<Rightarrow> Inl e
      | Inr locType \<Rightarrow>
         (case sample_dist s rnd k of
            Inl e \<Rightarrow> Inl e
          | Inr dKm \<Rightarrow>
              Inr \<lparr> day = currentDay s + 1, lon = sample_lon rnd k, lat = sample_lat rnd k,
                    locationType = locType, distanceKm = dKm,
                    temp = calculateTemperature (sample_lat rnd k) \<rparr>))"

text \<open>
  The first of the \<open>100\<close> attempts that does not read \<open>LAND\<close> (it reads another
  type, or the read throws), if there is one.
\<close>

definition first_stop :: "sim \<Rightarrow> (nat \<Rightarrow> real \<times> real) \<Rightarrow> nat option" where
  "first_stop s rnd = find (\<lambda>k. sample_type s rnd k \<noteq> Inr (JStr ''LAND'')) [0..<100]"

text \<open>The state after \<open>n\<close> more attempts of which \<open>m\<close> hit land.\<close>

definition count_attempts :: "nat \<Rightarrow> nat \<Rightarrow> sim \<Rightarrow> sim" where
  "count_attempts n m s =
     s\<lparr>stats := (stats s)\<lparr>totalAttempts := totalAttempts (stats s) + n,
                          landAttempts := landAttempts (stats s) + m\<rparr>\<rparr>"

subsection \<open>Runs of the driver\<close>

text \<open>
  The states a driver can be in between two calls of its methods: the constructor makes
  one, and every public method leads from one to the next, whether it returns or
  throws. Each call of \<open>simulateDay\<close> draws its own random numbers, and each timer
  tick is one call of \<open>loop\<close>.
\<close>

inductive reachable :: "sim \<Rightarrow> bool" where
  r_new: "reachable (OceanSimulation cfg)"
| r_reset: "reachable s \<Longrightarrow> reachable (reset s)"
| r_pause: "reachable s \<Longrightarrow> reachable (pause s)"
| r_setSpeed: "reachable s \<Longrightarrow> reachable (setSpeed v s)"
| r_simulateDay: "reachable s \<Longrightarrow> reachable (fst (simulateDay rnd s))"
| r_loop: "reachable s \<Longrightarrow> reachable (fst (loop str2num rnd s))"
| r_start: "reachable s \<Longrightarrow> reachable (fst (start str2num rnd s))"

text \<open>The arithmetic mean of the temperatures of the recorded drops.\<close>

definition mean_temp :: "Drop list \<Rightarrow> real" where
  "mean_temp ds = sum_list (map temp ds) / real (length ds)"

definition driver_inv :: "sim \<Rightarrow> bool" where
  "driver_inv s \<longleftrightarrow>
     currentDay s = length (drops s) \<and>
     currentDay s \<le> totalAttempts (stats s) \<and>
     (drops s \<noteq> [] \<longrightarrow> avgTemp (stats s) = mean_temp (drops s))"

subsection \<open>The outcomes of a day\<close>

text \<open>What no call of \<open>simulateDay\<close> touches.\<close>

definition same_settings :: "sim \<Rightarrow> sim \<Rightarrow> bool" where
  "same_settings s s' \<longleftrightarrow>
     totalDays s' = totalDays s \<and> delay s' = delay s \<and> isRunning s' = isRunning s \<and>
     onCheckLand s' = onCheckLand s \<and> land (stats s') = land (stats s)"

text \<open>
  A day that found no water: only the two attempt counters have moved, by \<open>100\<close> each.
\<close>

definition day_skipped :: "sim \<Rightarrow> sim \<Rightarrow> bool" where
  "day_skipped s s' \<longleftrightarrow>
     same_settings s s' \<and>
     currentDay s' = currentDay s \<and> drops s' = drops s \<and>
     water (stats s') = water (stats s) \<and> coastal (stats s') = coastal (stats s) \<and>
     avgTemp (stats s') = avgTemp (stats s) \<and>
     totalAttempts (stats s') = totalAttempts (stats s) + 100 \<and>
     landAttempts (stats s') = landAttempts (stats s) + 100"

text \<open>
  A day that was committed at attempt \<open>k\<close> with the drop \<open>d\<close>: exactly \<open>d\<close> is
  appended, it carries the new day number and a location type other than \<open>LAND\<close>; the
  day counter, \<open>water\<close> and the mean move with it; \<open>k + 1\<close> attempts were made, the
  first \<open>k\<close> on land. Of \<open>coastal\<close> it says what happens when the property holds a
  value, and that it stays as it is when the drop is not coastal.
\<close>

definition day_committed :: "sim \<Rightarrow> sim \<Rightarrow> nat \<Rightarrow> Drop \<Rightarrow> bool" where
  "day_committed s s' k d \<longleftrightarrow>
     same_settings s s' \<and>
     drops s' = drops s @ [d] \<and>
     currentDay s' = currentDay s + 1 \<and>
     day d = currentDay s' \<and>
     locationType d \<noteq> JStr ''LAND'' \<and>
     water (stats s') = water (stats s) + 1 \<and>
     avgTemp (stats s') =
       avgTemp (stats s) + (temp d - avgTemp (stats s)) / real (currentDay s') \<and>
     (locationType d \<noteq> JStr ''COASTAL'' \<longrightarrow> coastal (stats s') = coastal (stats s)) \<and>
     (locationType d = JStr ''COASTAL'' \<and> coastal (stats s) \<noteq> None \<longrightarrow>
        coastal (stats s') = js_incr (coastal (stats s))) \<and>
     totalAttempts (stats s') = totalAttempts (stats s) + k + 1 \<and>
     landAttempts (stats s') = landAttempts (stats s) + k"

text \<open>
  A day that was aborted at attempt \<open>k\<close>, where reading the callback's answer threw:
  only the two attempt counters have moved, by the \<open>k\<close> attempts on land before it.
\<close>

definition day_aborted :: "sim \<Rightarrow> sim \<Rightarrow> nat \<Rightarrow> bool" where
  "day_aborted s s' k \<longleftrightarrow>
     same_settings s s' \<and>
     currentDay s' = currentDay s \<and> drops s' = drops s \<and>
     water (stats s') = water (stats s) \<and> coastal (stats s') = coastal (stats s) \<and>
     avgTemp (stats s') = avgTemp (stats s) \<and>
     totalAttempts (stats s') = totalAttempts (stats s) + k \<and>
     landAttempts (stats s') = landAttempts (stats s) + k"

text \<open>
  Atomicity as the specification words it: a call appends exactly one drop, or it leaves
  the statistics, the history and the day counter as they were.
\<close>

definition one_drop_appended :: "sim \<Rightarrow> sim \<Rightarrow> bool" where
  "one_drop_appended s s' \<longleftrightarrow>
     length (drops s') = length (drops s) + 1 \<and> take (length (drops s)) (drops s') = drops s"

definition nothing_changed :: "sim \<Rightarrow> sim \<Rightarrow> bool" where
  "nothing_changed s s' \<longleftrightarrow>
     stats s' = stats s \<and> drops s' = drops s \<and> currentDay s' = currentDay s"

text \<open>
  A run has days when \<open>start\<close> finds \<open>currentDay < totalDays\<close>; on a new driver,
  when \<open>totalDays\<close> is a number above \<open>0\<close>.
\<close>

definition run_has_days :: "(string \<Rightarrow> jsnumber) \<Rightarrow> sim \<Rightarrow> bool" where
  "run_has_days str2num s \<longleftrightarrow>
     js_lt (Fin (real (currentDay s))) (to_number str2num (totalDays s))"

subsection \<open>Ray casting, land and zones, as the specification words them\<close>

text \<open>
  The edges of a ring: vertex \<open>i\<close> paired with its predecessor, the first vertex with
  the last. An edge is crossed when the latitude of the point separates the latitudes of
  its ends and the edge's longitude at that latitude lies beyond the point's.
\<close>

definition ring_edges :: "(real \<times> real) list \<Rightarrow> ((real \<times> real) \<times> (real \<times> real)) list" where
  "ring_edges polygon =
     map (\<lambda>i. (polygon ! i, polygon ! (if i = 0 then length polygon - 1 else i - 1)))
       [0..<length polygon]"

definition crosses :: "real \<Rightarrow> real \<Rightarrow> (real \<times> real) \<times> (real \<times> real) \<Rightarrow> bool" where
  "crosses lo la e =
     (case e of ((xi, yi), (xj, yj)) \<Rightarrow>
        ((yi > la) \<noteq> (yj > la)) \<and> lo < (xj - xi) * (la - yi) / (yj - yi) + xi)"

definition inside_ring :: "real \<Rightarrow> real \<Rightarrow> (real \<times> real) list \<Rightarrow> bool" where
  "inside_ring lo la polygon = odd (length (filter (crosses lo la) (ring_edges polygon)))"

definition land_test :: "(real \<times> real) list list \<Rightarrow> real \<Rightarrow> real \<Rightarrow> bool" where
  "land_test landPolygons lo la \<longleftrightarrow> la < - 80 \<or> (\<exists>p\<in>set landPolygons. inside_ring lo la p)"

definition zone_rule :: "bool \<Rightarrow> jsnumber \<Rightarrow> terrainInfo" where
  "zone_rule isLand d =
     (if isLand then TerrainObj (JStr ''LAND'') (JNum (Fin 0))
      else if js_le d (Fin 1) then TerrainObj (JStr ''COASTAL'') (JNum d)
      else if js_le d (Fin 100) then TerrainObj (JStr ''SHELF'') (JNum d)
      else if js_le d (Fin 300) then TerrainObj (JStr ''FAR'') (JNum d)
      else TerrainObj (JStr ''DEEP_OCEAN'') (JNum d))"

subsection \<open>The sampled coastline segments\<close>

text \<open>
  The segments the loop of \<open>getDistanceToCoast\<close> looks at join the stream's point
  \<open>i\<close> to its point \<open>min (i + 10) (n - 1)\<close>, for \<open>i = 0, 10, 20, \<dots>\<close> below
  \<open>n - 1\<close>. The distance to the coast is the least of the distances to them, and
  \<open>Infinity\<close> when there is none.
\<close>

definition sample_starts :: "nat \<Rightarrow> nat list" where
  "sample_starts n = filter (\<lambda>i. i mod 10 = 0) [0..<n - 1]"

definition segment_distance :: "(real \<times> real) list \<Rightarrow> real \<Rightarrow> real \<Rightarrow> nat \<Rightarrow> real" where
  "segment_distance coords la lo i =
     (case coords ! i of (aLon, aLat) \<Rightarrow>
        case coords ! (min (i + 10) (length coords - 1)) of (bLon, bLat) \<Rightarrow>
          pointToSegmentDistance la lo aLat aLon bLat bLon)"

definition sampled_distances :: "(real \<times> real) list \<Rightarrow> real \<Rightarrow> real \<Rightarrow> real list" where
  "sampled_distances coords la lo =
     map (segment_distance coords la lo) (sample_starts (length coords))"

definition min_sampled_distance :: "(real \<times> real) list option \<Rightarrow> real \<Rightarrow> real \<Rightarrow> jsnumber" where
  "min_sampled_distance coastlineCoords la lo =
     (case coastlineCoords of
        None \<Rightarrow> PosInf
      | Some coords \<Rightarrow>
          if sampled_distances coords la lo = [] then PosInf
          else Fin (Min (set (sampled_distances coords la lo))))"

text \<open>One update of \<open>minDist\<close>, and the quantity \<open>a\<close> of the haversine formula.\<close>

definition keep_min :: "real \<Rightarrow> jsnumber \<Rightarrow> jsnumber" where
  "keep_min d m = (if js_lt (Fin d) m then Fin d else m)"

definition haversine_a :: "real \<Rightarrow> real \<Rightarrow> real \<Rightarrow> real \<Rightarrow> real" where
  "haversine_a lat1 lon1 lat2 lon2 =
     (let dLat = (lat2 - lat1) * pi / 180;
          dLon = (lon2 - lon1) * pi / 180
      in (sin (dLat / 2))\<^sup>2 +
         cos (lat1 * pi / 180) * cos (lat2 * pi / 180) * (sin (dLon / 2))\<^sup>2)"

subsection \<open>Concrete inputs\<close>

text \<open>
  Land checks: one that always answers \<open>LAND\<close>, one that always answers
  \<open>COASTAL\<close>, and one that answers \<open>LAND\<close> on the equator and \<open>null\<close> elsewhere.
  Random sources: one that always draws \<open>(0.5, 0.5)\<close> (the point at latitude and
  longitude \<open>0\<close>), and one that draws it first and \<open>(0, 0.5)\<close> (the south pole)
  afterwards. A conversion of strings that is never consulted, and one that knows the
  string \<open>'0'\<close>. Configurations, the square ring of the specification's examples, and
  a coastline of two equal points.
\<close>

definition always_land :: "real \<Rightarrow> real \<Rightarrow> terrainInfo" where
  "always_land lo la = TerrainObj (JStr ''LAND'') (JNum (Fin 0))"

definition always_coastal :: "real \<Rightarrow> real \<Rightarrow> terrainInfo" where
  "always_coastal lo la = TerrainObj (JStr ''COASTAL'') (JNum (Fin (1 / 2)))"

definition null_off_equator :: "real \<Rightarrow> real \<Rightarrow> terrainInfo" where
  "null_off_equator lo la =
     (if la = 0 then TerrainObj (JStr ''LAND'') (JNum (Fin 0)) else TerrainNull)"

definition rnd_half :: "nat \<Rightarrow> real \<times> real" where
  "rnd_half k = (1 / 2, 1 / 2)"

definition rnd_south :: "nat \<Rightarrow> real \<times> real" where
  "rnd_south k = (if k = 0 then (1 / 2, 1 / 2) else (0, 1 / 2))"

definition str2num_nan :: "string \<Rightarrow> jsnumber" where
  "str2num_nan str = NaN"

definition str2num_zero :: "string \<Rightarrow> jsnumber" where
  "str2num_zero str = (if str = ''0'' then Fin 0 else NaN)"

definition cfg_land :: config where
  "cfg_land = \<lparr> cfg_totalDays = JNum (Fin 100), cfg_onCheckLand = Some always_land \<rparr>"

definition cfg_coastal :: config where
  "cfg_coastal = \<lparr> cfg_totalDays = JNum (Fin 100), cfg_onCheckLand = Some always_coastal \<rparr>"

definition cfg_null :: config where
  "cfg_null = \<lparr> cfg_totalDays = JNum (Fin 100), cfg_onCheckLand = Some null_off_equator \<rparr>"

definition cfg_zero_days :: config where
  "cfg_zero_days = \<lparr> cfg_totalDays = JNum (Fin 0), cfg_onCheckLand = Some always_coastal \<rparr>"

definition cfg_minus_one :: config where
  "cfg_minus_one = \<lparr> cfg_totalDays = JNum (Fin (- 1)), cfg_onCheckLand = Some always_coastal \<rparr>"

definition cfg_string_zero :: config where
  "cfg_string_zero = \<lparr> cfg_totalDays = JStr ''0'', cfg_onCheckLand = Some always_coastal \<rparr>"

definition coastal_drop :: Drop where
  "coastal_drop = \<lparr> day = 1, lon = 0, lat = 0, locationType = JStr ''COASTAL'',
                     distanceKm = JNum (Fin (1 / 2)), temp = 30 \<rparr>"

definition square_ring :: "(real \<times> real) list" where
  "square_ring = [(0, 0), (0, 10), (10, 10), (10, 0)]"

definition origin_pair :: "(real \<times> real) list" where
  "origin_pair = [(0, 0), (0, 0)]"

section \<open>The retry loop\<close>

declare retry_loop.simps [simp del] ray_loop.simps [simp del] coast_loop.simps [simp del]

text \<open>Reading the distance throws only where reading the type has thrown already.\<close>

lemma sample_drop_Inl: "sample_drop s rnd k = Inl e \<Longrightarrow> sample_type s rnd k = Inl e"
  by (cases "sample_terrain s rnd k")
     (simp_all add: sample_drop_def sample_type_def sample_dist_def)

lemma sample_drop_Inr: "sample_drop s rnd k = Inr d \<Longrightarrow> sample_type s rnd k = Inr (locationType d)"
  by (cases "sample_terrain s rnd k")
     (auto simp: sample_drop_def sample_type_def sample_dist_def)

lemma sample_type_Inl: "sample_type s rnd k = Inl e \<Longrightarrow> sample_drop s rnd k = Inl e"
  by (simp add: sample_drop_def)

lemma sample_type_Inr:
  "sample_type s rnd k = Inr t \<Longrightarrow> \<exists>d. sample_drop s rnd k = Inr d \<and> locationType d = t"
  by (cases "sample_terrain s rnd k")
     (auto simp: sample_drop_def sample_type_def sample_dist_def)

lemma retry_loop_unfold:
  "retry_loop rnd a s =
     (if a < 100 then
        (case sample_drop s rnd a of
           Inl e \<Rightarrow> (s, Inl e)
         | Inr d \<Rightarrow>
             if locationType d = JStr ''LAND''
             then retry_loop rnd (a + 1) (count_attempts 1 1 s)
             else ((count_attempts 1 0 s)\<lparr>currentDay := currentDay s + 1\<rparr>, Inr (Some d)))
      else (s, Inr None))"
  by (subst retry_loop.simps)
     (simp add: Let_def sample_type_def sample_terrain_def sample_lat_def sample_lon_def
        sample_dist_def sample_drop_def count_attempts_def split: sum.splits)

lemma count_attempts_fields [simp]:
  "totalDays (count_attempts n m s) = totalDays s"
  "currentDay (count_attempts n m s) = currentDay s"
  "delay (count_attempts n m s) = delay s"
  "isRunning (count_attempts n m s) = isRunning s"
  "drops (count_attempts n m s) = drops s"
  "onCheckLand (count_attempts n m s) = onCheckLand s"
  "land (stats (count_attempts n m s)) = land (stats s)"
  "coastal (stats (count_attempts n m s)) = coastal (stats s)"
  "water (stats (count_attempts n m s)) = water (stats s)"
  "avgTemp (stats (count_attempts n m s)) = avgTemp (stats s)"
  "totalAttempts (stats (count_attempts n m s)) = totalAttempts (stats s) + n"
  "landAttempts (stats (count_attempts n m s)) = landAttempts (stats s) + m"
  by (simp_all add: count_attempts_def)

lemma count_attempts_add:
  "count_attempts n m (count_attempts n' m' s) = count_attempts (n' + n) (m' + m) s"
  by (simp add: count_attempts_def add.assoc)

lemma count_attempts_0 [simp]: "count_attempts 0 0 s = s"
  by (simp add: count_attempts_def)

lemma sample_type_count [simp]:
  "sample_type (count_attempts n m s) rnd k = sample_type s rnd k"
  by (simp add: sample_type_def sample_terrain_def)

lemma sample_dist_count [simp]:
  "sample_dist (count_attempts n m s) rnd k = sample_dist s rnd k"
  by (simp add: sample_dist_def sample_terrain_def)

lemma sample_drop_count [simp]:
  "sample_drop (count_attempts n m s) rnd k = sample_drop s rnd k"
  by (simp add: sample_drop_def split: sum.splits)

lemma retry_loop_land_step:
  assumes "a < 100" and "sample_type s rnd a = Inr (JStr ''LAND'')"
  shows "retry_loop rnd a s = retry_loop rnd (a + 1) (count_attempts 1 1 s)"
proof -
  obtain d where "sample_drop s rnd a = Inr d" "locationType d = JStr ''LAND''"
    using sample_type_Inr[OF assms(2)] by blast
  with assms(1) show ?thesis by (subst retry_loop_unfold) simp
qed

text \<open>When every remaining attempt hits land the loop runs out and returns no drop.\<close>

lemma retry_loop_all_land:
  "a \<le> 100 \<Longrightarrow> \<forall>k. a \<le> k \<and> k < 100 \<longrightarrow> sample_type s rnd k = Inr (JStr ''LAND'') \<Longrightarrow>
     retry_loop rnd a s = (count_attempts (100 - a) (100 - a) s, Inr None)"
proof (induction "100 - a" arbitrary: a s)
  case 0
  then have "a = 100" by simp
  then show ?case by (subst retry_loop_unfold) simp
next
  case (Suc n)
  then have lt: "a < 100" by simp
  have hit: "sample_type s rnd a = Inr (JStr ''LAND'')" using Suc.prems lt by simp
  have "retry_loop rnd (a + 1) (count_attempts 1 1 s)
          = (count_attempts (100 - (a + 1)) (100 - (a + 1)) (count_attempts 1 1 s), Inr None)"
    using Suc.hyps(2) Suc.prems lt by (intro Suc.hyps(1)) auto
  with lt show ?case
    unfolding retry_loop_land_step[OF lt hit] by (simp add: count_attempts_add)
qed

text \<open>
  When attempt \<open>k\<close> is the first that does not read \<open>LAND\<close>, the loop stops there:
  with the attempt's drop, or with the error thrown by reading the answer.
\<close>

lemma retry_loop_stop:
  "k < 100 \<Longrightarrow> a \<le> k \<Longrightarrow>
   \<forall>i. a \<le> i \<and> i < k \<longrightarrow> sample_type s rnd i = Inr (JStr ''LAND'') \<Longrightarrow>
     retry_loop rnd a s = retry_loop rnd k (count_attempts (k - a) (k - a) s)"
proof (induction "k - a" arbitrary: a s)
  case 0
  then show ?case by simp
next
  case (Suc n)
  then have lt: "a < k" "a < 100" by simp_all
  have hit: "sample_type s rnd a = Inr (JStr ''LAND'')" using Suc.prems lt by simp
  have "retry_loop rnd (a + 1) (count_attempts 1 1 s) =
          retry_loop rnd k (count_attempts (k - (a + 1)) (k - (a + 1)) (count_attempts 1 1 s))"
    using Suc.hyps(2) Suc.prems lt by (intro Suc.hyps(1)) auto
  moreover have "Suc (k - Suc a) = k - a" using lt by simp
  ultimately show ?case
    unfolding retry_loop_land_step[OF lt(2) hit] by (simp add: count_attempts_add)
qed

lemma retry_loop_found:
  assumes "k < 100" and "\<forall>i. i < k \<longrightarrow> sample_type s rnd i = Inr (JStr ''LAND'')"
    and "sample_drop s rnd k = Inr d" and "locationType d \<noteq> JStr ''LAND''"
  shows "retry_loop rnd 0 s =
           ((count_attempts (k + 1) k s)\<lparr>currentDay := currentDay s + 1\<rparr>, Inr (Some d))"
proof -
  have "retry_loop rnd 0 s = retry_loop rnd k (count_attempts (k - 0) (k - 0) s)"
    using assms(1,2) by (intro retry_loop_stop) simp_all
  also have "\<dots> = ((count_attempts 1 0 (count_attempts k k s))\<lparr>currentDay := currentDay s + 1\<rparr>,
                    Inr (Some d))"
    using assms(1,3,4) by (subst retry_loop_unfold) simp
  finally show ?thesis by (simp add: count_attempts_add)
qed

lemma retry_loop_threw:
  assumes "k < 100" and "\<forall>i. i < k \<longrightarrow> sample_type s rnd i = Inr (JStr ''LAND'')"
    and "sample_drop s rnd k = Inl e"
  shows "retry_loop rnd 0 s = (count_attempts k k s, Inl e)"
proof -
  have "retry_loop rnd 0 s = retry_loop rnd k (count_attempts (k - 0) (k - 0) s)"
    using assms(1,2) by (intro retry_loop_stop) simp_all
  also have "\<dots> = (count_attempts k k s, Inl e)"
    using assms(1,3) by (subst retry_loop_unfold) simp
  finally show ?thesis .
qed

text \<open>The first attempt that does not read \<open>LAND\<close>.\<close>

lemma first_stop_None:
  "(\<forall>k. k < 100 \<longrightarrow> sample_type s rnd k = Inr (JStr ''LAND'')) \<Longrightarrow> first_stop s rnd = None"
  by (simp add: first_stop_def find_None_iff)

lemma first_stop_Some:
  assumes "k < 100" and "\<forall>i. i < k \<longrightarrow> sample_type s rnd i = Inr (JStr ''LAND'')"
    and "sample_type s rnd k \<noteq> Inr (JStr ''LAND'')"
  shows "first_stop s rnd = Some k"
proof -
  have "\<exists>i<length [0..<100::nat]. sample_type s rnd ([0..<100] ! i) \<noteq> Inr (JStr ''LAND'') \<and>
          k = [0..<100] ! i \<and>
          (\<forall>j<i. \<not> sample_type s rnd ([0..<100] ! j) \<noteq> Inr (JStr ''LAND''))"
    using assms by (intro exI[of _ k]) simp
  then show ?thesis unfolding first_stop_def find_Some_iff .
qed

lemma first_water_cases:
  obtains (all_land) "\<forall>k. k < 100 \<longrightarrow> sample_type s rnd k = Inr (JStr ''LAND'')"
      "first_stop s rnd = None"
  | (found) k d where "k < 100"
      "\<forall>i. i < k \<longrightarrow> sample_type s rnd i = Inr (JStr ''LAND'')"
      "sample_drop s rnd k = Inr d" "locationType d \<noteq> JStr ''LAND''"
      "first_stop s rnd = Some k"
  | (threw) k e where "k < 100"
      "\<forall>i. i < k \<longrightarrow> sample_type s rnd i = Inr (JStr ''LAND'')"
      "sample_drop s rnd k = Inl e"
      "first_stop s rnd = Some k"
proof (cases "\<forall>k. k < 100 \<longrightarrow> sample_type s rnd k = Inr (JStr ''LAND'')")
  case True
  then show ?thesis using first_stop_None[OF True] by (rule all_land)
next
  case False
  then have ex: "\<exists>k. k < 100 \<and> sample_type s rnd k \<noteq> Inr (JStr ''LAND'')" by blast
  define k where "k = (LEAST k. k < 100 \<and> sample_type s rnd k \<noteq> Inr (JStr ''LAND''))"
  have k: "k < 100 \<and> sample_type s rnd k \<noteq> Inr (JStr ''LAND'')"
    unfolding k_def using ex by (rule LeastI_ex)
  have before: "\<forall>i. i < k \<longrightarrow> sample_type s rnd i = Inr (JStr ''LAND'')"
  proof (intro allI impI)
    fix i assume "i < k"
    then have "\<not> (i < 100 \<and> sample_type s rnd i \<noteq> Inr (JStr ''LAND''))"
      unfolding k_def by (rule not_less_Least)
    moreover have "i < 100" using \<open>i < k\<close> k by simp
    ultimately show "sample_type s rnd i = Inr (JStr ''LAND'')" by blast
  qed
  have fs: "first_stop s rnd = Some k" using k before by (intro first_stop_Some) simp_all
  show ?thesis
  proof (cases "sample_drop s rnd k")
    case (Inl e)
    with k before fs show ?thesis by (intro threw[of k e]) simp_all
  next
    case (Inr d)
    then have "locationType d \<noteq> JStr ''LAND''" using sample_drop_Inr[OF Inr] k by auto
    with k before fs Inr show ?thesis by (intro found[of k d]) simp_all
  qed
qed

section \<open>One day\<close>

lemma simulateDay_skipped:
  assumes "\<forall>k. k < 100 \<longrightarrow> sample_type s rnd k = Inr (JStr ''LAND'')"
  shows "simulateDay rnd s = (count_attempts 100 100 s, None)"
proof -
  have "retry_loop rnd 0 s = (count_attempts (100 - 0) (100 - 0) s, Inr None)"
    using assms by (intro retry_loop_all_land) simp_all
  then show ?thesis by (simp add: simulateDay_def)
qed

lemma simulateDay_threw:
  assumes "k < 100" and "\<forall>i. i < k \<longrightarrow> sample_type s rnd i = Inr (JStr ''LAND'')"
    and "sample_drop s rnd k = Inl e"
  shows "simulateDay rnd s = (count_attempts k k s, Some e)"
  by (simp add: simulateDay_def retry_loop_threw[OF assms])

lemma simulateDay_found:
  assumes "k < 100" and "\<forall>i. i < k \<longrightarrow> sample_type s rnd i = Inr (JStr ''LAND'')"
    and "sample_drop s rnd k = Inr d" and "locationType d \<noteq> JStr ''LAND''"
  shows "drops (fst (simulateDay rnd s)) = drops s @ [d]"
    and "currentDay (fst (simulateDay rnd s)) = currentDay s + 1"
    and "totalAttempts (stats (fst (simulateDay rnd s))) = totalAttempts (stats s) + (k + 1)"
    and "landAttempts (stats (fst (simulateDay rnd s))) = landAttempts (stats s) + k"
    and "water (stats (fst (simulateDay rnd s))) = water (stats s) + 1"
    and "land (stats (fst (simulateDay rnd s))) = land (stats s)"
    and "coastal (stats (fst (simulateDay rnd s))) =
           (if locationType d = JStr ''COASTAL'' then js_incr (coastal (stats s))
            else coastal (stats s))"
    and "avgTemp (stats (fst (simulateDay rnd s))) =
           avgTemp (stats s) + (temp d - avgTemp (stats s)) / real (currentDay s + 1)"
    and "totalDays (fst (simulateDay rnd s)) = totalDays s"
    and "delay (fst (simulateDay rnd s)) = delay s"
    and "isRunning (fst (simulateDay rnd s)) = isRunning s"
    and "onCheckLand (fst (simulateDay rnd s)) = onCheckLand s"
    and "snd (simulateDay rnd s) = None"
proof -
  note r = retry_loop_found[OF assms]
  show "drops (fst (simulateDay rnd s)) = drops s @ [d]"
    by (simp add: simulateDay_def r Let_def)
  show "currentDay (fst (simulateDay rnd s)) = currentDay s + 1"
    by (simp add: simulateDay_def r Let_def)
  show "totalAttempts (stats (fst (simulateDay rnd s))) = totalAttempts (stats s) + (k + 1)"
    by (simp add: simulateDay_def r Let_def)
  show "landAttempts (stats (fst (simulateDay rnd s))) = landAttempts (stats s) + k"
    by (simp add: simulateDay_def r Let_def)
  show "water (stats (fst (simulateDay rnd s))) = water (stats s) + 1"
    by (simp add: simulateDay_def r Let_def)
  show "land (stats (fst (simulateDay rnd s))) = land (stats s)"
    by (simp add: simulateDay_def r Let_def)
  show "coastal (stats (fst (simulateDay rnd s))) =
           (if locationType d = JStr ''COASTAL'' then js_incr (coastal (stats s))
            else coastal (stats s))"
    by (simp add: simulateDay_def r Let_def)
  show "avgTemp (stats (fst (simulateDay rnd s))) =
           avgTemp (stats s) + (temp d - avgTemp (stats s)) / real (currentDay s + 1)"
    by (simp add: simulateDay_def r Let_def)
  show "totalDays (fst (simulateDay rnd s)) = totalDays s"
    by (simp add: simulateDay_def r Let_def)
  show "delay (fst (simulateDay rnd s)) = delay s"
    by (simp add: simulateDay_def r Let_def)
  show "isRunning (fst (simulateDay rnd s)) = isRunning s"
    by (simp add: simulateDay_def r Let_def)
  show "onCheckLand (fst (simulateDay rnd s)) = onCheckLand s"
    by (simp add: simulateDay_def r Let_def)
  show "snd (simulateDay rnd s) = None"
    by (simp add: simulateDay_def r Let_def)
qed

lemma skipped_day_skipped:
  assumes "\<forall>k. k < 100 \<longrightarrow> sample_type s rnd k = Inr (JStr ''LAND'')"
  shows "snd (simulateDay rnd s) = None \<and> day_skipped s (fst (simulateDay rnd s))"
  unfolding simulateDay_skipped[OF assms]
  by (simp add: day_skipped_def same_settings_def)

lemma threw_day_aborted:
  assumes "k < 100" and "\<forall>i. i < k \<longrightarrow> sample_type s rnd i = Inr (JStr ''LAND'')"
    and "sample_drop s rnd k = Inl e"
  shows "snd (simulateDay rnd s) = Some e \<and> day_aborted s (fst (simulateDay rnd s)) k"
  unfolding simulateDay_threw[OF assms]
  by (simp add: day_aborted_def same_settings_def)

lemma sample_drop_day: "sample_drop s rnd k = Inr d \<Longrightarrow> day d = currentDay s + 1"
  by (auto simp: sample_drop_def split: sum.splits)

lemma found_day_committed:
  assumes "k < 100" and "\<forall>i. i < k \<longrightarrow> sample_type s rnd i = Inr (JStr ''LAND'')"
    and "sample_drop s rnd k = Inr d" and "locationType d \<noteq> JStr ''LAND''"
  shows "snd (simulateDay rnd s) = None \<and> day_committed s (fst (simulateDay rnd s)) k d"
proof -
  note f = simulateDay_found[OF assms]
  have "same_settings s (fst (simulateDay rnd s))"
    by (simp add: same_settings_def f)
  then have "day_committed s (fst (simulateDay rnd s)) k d"
    unfolding day_committed_def
    using assms(4) sample_drop_day[OF assms(3)] by (simp add: f)
  with f(13) show ?thesis by simp
qed

text \<open>The concrete inputs, evaluated.\<close>

lemma sample_lat_half [simp]: "sample_lat rnd_half k = 0"
  by (simp add: sample_lat_def rnd_half_def)

lemma sample_lon_half [simp]: "sample_lon rnd_half k = 0"
  by (simp add: sample_lon_def rnd_half_def)

lemma sample_lat_south [simp]:
  "sample_lat rnd_south 0 = 0" "0 < k \<Longrightarrow> sample_lat rnd_south k = - 90"
  by (simp_all add: sample_lat_def rnd_south_def arcsin_minus_1)

lemma calculateTemperature_0 [simp]: "calculateTemperature 0 = 30"
  by (simp add: calculateTemperature_def)

lemma onCheckLand_new [simp]:
  "onCheckLand (OceanSimulation cfg_land) = always_land"
  "onCheckLand (OceanSimulation cfg_coastal) = always_coastal"
  "onCheckLand (OceanSimulation cfg_null) = null_off_equator"
  "onCheckLand (OceanSimulation cfg_zero_days) = always_coastal"
  "onCheckLand (OceanSimulation cfg_minus_one) = always_coastal"
  "onCheckLand (reset s) = onCheckLand s"
  by (simp_all add: OceanSimulation_def reset_def cfg_land_def cfg_coastal_def cfg_null_def
        cfg_zero_days_def cfg_minus_one_def)

lemma new_driver_fields [simp]:
  "currentDay (OceanSimulation cfg) = 0"
  "drops (OceanSimulation cfg) = []"
  "isRunning (OceanSimulation cfg) = False"
  "coastal (stats (OceanSimulation cfg)) = None"
  "water (stats (OceanSimulation cfg)) = 0"
  "avgTemp (stats (OceanSimulation cfg)) = 0"
  "totalAttempts (stats (OceanSimulation cfg)) = 0"
  "landAttempts (stats (OceanSimulation cfg)) = 0"
  by (simp_all add: OceanSimulation_def)

lemma sample_type_always_land [simp]:
  "onCheckLand s = always_land \<Longrightarrow> sample_type s rnd k = Inr (JStr ''LAND'')"
  by (simp add: sample_type_def sample_terrain_def always_land_def)

lemma sample_type_always_coastal [simp]:
  "onCheckLand s = always_coastal \<Longrightarrow> sample_type s rnd k = Inr (JStr ''COASTAL'')"
  by (simp add: sample_type_def sample_terrain_def always_coastal_def)

lemma sample_drop_always_coastal:
  "onCheckLand s = always_coastal \<Longrightarrow>
     sample_drop s rnd_half k = Inr (coastal_drop\<lparr>day := currentDay s + 1\<rparr>)"
  by (simp add: sample_drop_def sample_dist_def sample_terrain_def always_coastal_def
        coastal_drop_def)

lemma sample_null_off_equator:
  "sample_type (OceanSimulation cfg_null) rnd_south 0 = Inr (JStr ''LAND'')"
  "sample_drop (OceanSimulation cfg_null) rnd_south 1 = Inl TypeError"
  by (simp_all add: sample_drop_def sample_type_def sample_terrain_def null_off_equator_def)

section \<open>The invariant of the driver\<close>

lemma online_mean_step:
  fixes S t n :: real
  assumes "0 < n"
  shows "S / n + (t - S / n) / (n + 1) = (S + t) / (n + 1)"
proof -
  have "S / n + (t - S / n) / (n + 1) = (S / n * (n + 1) + (t - S / n)) / (n + 1)"
    using assms by (simp add: add_divide_distrib)
  also have "S / n * (n + 1) + (t - S / n) = S + t"
    using assms by (simp add: distrib_left)
  finally show ?thesis .
qed

lemma mean_temp_snoc:
  assumes "ds \<noteq> [] \<longrightarrow> a = mean_temp ds"
  shows "a + (temp d - a) / real (length ds + 1) = mean_temp (ds @ [d])"
proof (cases "ds = []")
  case True
  then show ?thesis by (simp add: mean_temp_def)
next
  case False
  then have n: "0 < real (length ds)" by simp
  have a: "a = sum_list (map temp ds) / real (length ds)"
    using assms False by (simp add: mean_temp_def)
  have "a + (temp d - a) / (real (length ds) + 1) =
          (sum_list (map temp ds) + temp d) / (real (length ds) + 1)"
    unfolding a using n by (rule online_mean_step)
  then show ?thesis by (simp add: mean_temp_def add.commute)
qed

lemma inv_count_attempts: "driver_inv s \<Longrightarrow> driver_inv (count_attempts n m s)"
  by (simp add: driver_inv_def)

lemma inv_simulateDay:
  assumes "driver_inv s"
  shows "driver_inv (fst (simulateDay rnd s))"
proof (cases rule: first_water_cases[of s rnd])
  case all_land
  show ?thesis
    unfolding simulateDay_skipped[OF all_land(1)] using assms by (simp add: inv_count_attempts)
next
  case (threw k e)
  show ?thesis
    unfolding simulateDay_threw[OF threw(1,2,3)] using assms by (simp add: inv_count_attempts)
next
  case (found k d)
  note f = simulateDay_found[OF found(1,2,3,4)]
  have cd: "currentDay s = length (drops s)" using assms by (simp add: driver_inv_def)
  have "avgTemp (stats (fst (simulateDay rnd s))) = mean_temp (drops s @ [d])"
    unfolding f(8) cd
    by (rule mean_temp_snoc) (use assms in \<open>simp add: driver_inv_def\<close>)
  then show ?thesis
    using assms by (simp add: driver_inv_def f(1,2,3))
qed

lemma inv_running: "driver_inv s \<Longrightarrow> driver_inv (s\<lparr>isRunning := b\<rparr>)"
  by (simp add: driver_inv_def)

lemma inv_loop: "driver_inv s \<Longrightarrow> driver_inv (fst (loop str2num rnd s))"
  by (simp add: loop_def inv_simulateDay inv_running)

lemma inv_start: "driver_inv s \<Longrightarrow> driver_inv (fst (start str2num rnd s))"
  by (simp add: start_def inv_loop inv_running)

lemma reachable_inv: "reachable s \<Longrightarrow> driver_inv s"
proof (induction rule: reachable.induct)
  case (r_new cfg)
  show ?case by (simp add: driver_inv_def OceanSimulation_def)
next
  case (r_reset s)
  show ?case by (simp add: driver_inv_def reset_def)
next
  case (r_pause s)
  then show ?case by (simp add: driver_inv_def pause_def)
next
  case (r_setSpeed s v)
  then show ?case by (simp add: driver_inv_def setSpeed_def)
next
  case (r_simulateDay s rnd)
  from r_simulateDay.IH show ?case by (rule inv_simulateDay)
next
  case (r_loop s str2num rnd)
  from r_loop.IH show ?case by (rule inv_loop)
next
  case (r_start s str2num rnd)
  from r_start.IH show ?case by (rule inv_start)
qed

text \<open>When a run has days, \<open>start\<close> on a new driver simulates one; else it does nothing.\<close>

lemma js_lt_not_ge: "js_lt a b \<Longrightarrow> \<not> js_ge a b"
  by (cases a; cases b) (simp_all add: js_ge_def)

lemma start_new_driver:
  "start str2num rnd (OceanSimulation cfg) =
     (if run_has_days str2num (OceanSimulation cfg)
      then simulateDay rnd ((OceanSimulation cfg)\<lparr>isRunning := True\<rparr>)
      else (OceanSimulation cfg, None))"
  by (simp add: start_def loop_def run_has_days_def js_lt_not_ge)

section \<open>Claims about the driver\<close>

text \<open>
  Claim C1. In every state a driver can reach in which at least one drop is recorded,
  \<open>stats.avgTemp\<close> is the arithmetic mean of the \<open>temp\<close> fields of all recorded
  drops: the recurrence \<open>avgTemp += (temp - avgTemp) / currentDay\<close> maintains it.
  (Numbers are reals here: the equality is exact, where doubles round.)
\<close>

theorem avgTemp_is_mean:
  "reachable s \<Longrightarrow> drops s \<noteq> [] \<Longrightarrow> avgTemp (stats s) = mean_temp (drops s)"
  using reachable_inv[of s] by (simp add: driver_inv_def)

text \<open>
  C1 at a concrete run: a new driver whose land check always answers \<open>COASTAL\<close>
  simulates one day at latitude \<open>0\<close>; its mean is the one temperature, \<open>30\<close>.
\<close>

theorem avgTemp_is_mean_witness:
  "reachable (fst (simulateDay rnd_half (OceanSimulation cfg_coastal))) \<and>
   drops (fst (simulateDay rnd_half (OceanSimulation cfg_coastal))) = [coastal_drop] \<and>
   avgTemp (stats (fst (simulateDay rnd_half (OceanSimulation cfg_coastal)))) =
     mean_temp (drops (fst (simulateDay rnd_half (OceanSimulation cfg_coastal)))) \<and>
   avgTemp (stats (fst (simulateDay rnd_half (OceanSimulation cfg_coastal)))) = 30"
proof -
  have a: "(0::nat) < 100"
    "\<forall>i. i < (0::nat) \<longrightarrow>
       sample_type (OceanSimulation cfg_coastal) rnd_half i = Inr (JStr ''LAND'')"
    "sample_drop (OceanSimulation cfg_coastal) rnd_half 0 = Inr coastal_drop"
    "locationType coastal_drop \<noteq> JStr ''LAND''"
    by (simp_all add: sample_drop_always_coastal) (simp_all add: coastal_drop_def)
  note f = simulateDay_found[OF a]
  have r: "reachable (fst (simulateDay rnd_half (OceanSimulation cfg_coastal)))"
    by (intro reachable.intros)
  have d: "drops (fst (simulateDay rnd_half (OceanSimulation cfg_coastal))) \<noteq> []"
    by (simp add: f(1))
  have v: "avgTemp (stats (fst (simulateDay rnd_half (OceanSimulation cfg_coastal)))) = 30"
    by (simp add: f(8)) (simp add: coastal_drop_def)
  show ?thesis using r v avgTemp_is_mean[OF r d] by (simp add: f(1))
qed

text \<open>
  Claim C2, as stated: every call of \<open>simulateDay\<close> either appends exactly one drop
  or leaves the statistics, the history and \<open>currentDay\<close> as they were. It fails for
  a driver whose every attempt hits land: no drop is appended, yet
  \<open>stats.totalAttempts\<close> and \<open>stats.landAttempts\<close> go from \<open>0\<close> to \<open>100\<close>.
\<close>

theorem simulateDay_not_atomic_counterexample:
  "\<not> (one_drop_appended (OceanSimulation cfg_land)
         (fst (simulateDay rnd_half (OceanSimulation cfg_land)))
      \<or> nothing_changed (OceanSimulation cfg_land)
         (fst (simulateDay rnd_half (OceanSimulation cfg_land))))"
proof -
  have "simulateDay rnd_half (OceanSimulation cfg_land)
          = (count_attempts 100 100 (OceanSimulation cfg_land), None)"
    by (intro simulateDay_skipped) simp
  then show ?thesis
    by (simp add: one_drop_appended_def nothing_changed_def count_attempts_def
          OceanSimulation_def)
qed

text \<open>
  Claim C2, amended: every call of \<open>simulateDay\<close> has one of three outcomes, decided
  by the first of its \<open>100\<close> attempts that does not read \<open>LAND\<close>. When there is
  none, the call returns and the day is skipped: \<open>currentDay\<close>, the history and the
  statistics \<open>water\<close>, \<open>coastal\<close>, \<open>avgTemp\<close> and \<open>land\<close> are as before, and
  \<open>totalAttempts\<close> and \<open>landAttempts\<close> have each grown by \<open>100\<close>. When that
  attempt \<open>k\<close> reads another type, the call returns and the day is committed: exactly
  one drop is appended, the one built in that attempt (the sampled \<open>lon\<close> and
  \<open>lat\<close>, the type and distance read from the callback's answer, the temperature of
  \<open>lat\<close>, the new day number), and the day counter, \<open>water\<close>, the mean and the
  attempt counters move together with it. When the callback answers \<open>null\<close> there,
  the call throws a \<open>TypeError\<close>, and only the two attempt counters have moved, by
  the \<open>k\<close> attempts before it.
\<close>

theorem simulateDay_commit_or_skip:
  "case first_stop s rnd of
     None \<Rightarrow> snd (simulateDay rnd s) = None \<and> day_skipped s (fst (simulateDay rnd s))
   | Some k \<Rightarrow>
       k < 100 \<and>
       (case sample_drop s rnd k of
          Inr d \<Rightarrow>
            snd (simulateDay rnd s) = None \<and> day_committed s (fst (simulateDay rnd s)) k d
        | Inl e \<Rightarrow>
            snd (simulateDay rnd s) = Some e \<and> day_aborted s (fst (simulateDay rnd s)) k)"
proof (cases rule: first_water_cases[of s rnd])
  case all_land
  show ?thesis
    using skipped_day_skipped[OF all_land(1)] by (simp add: all_land(2))
next
  case (found k d)
  show ?thesis
    using found(1) found_day_committed[OF found(1,2,3,4)] by (simp add: found(3,5))
next
  case (threw k e)
  show ?thesis
    using threw(1) threw_day_aborted[OF threw(1,2,3)] by (simp add: threw(3,4))
qed

text \<open>
  All three outcomes occur: a committed day on an all-coastal map, with its one drop; a
  skipped day on an all-land map; and a day aborted at its second attempt, after one
  attempt on land.
\<close>

theorem simulateDay_commit_or_skip_witness:
  "snd (simulateDay rnd_half (OceanSimulation cfg_coastal)) = None \<and>
   day_committed (OceanSimulation cfg_coastal)
     (fst (simulateDay rnd_half (OceanSimulation cfg_coastal))) 0 coastal_drop \<and>
   snd (simulateDay rnd_half (OceanSimulation cfg_land)) = None \<and>
   day_skipped (OceanSimulation cfg_land) (fst (simulateDay rnd_half (OceanSimulation cfg_land))) \<and>
   snd (simulateDay rnd_south (OceanSimulation cfg_null)) = Some TypeError \<and>
   day_aborted (OceanSimulation cfg_null)
     (fst (simulateDay rnd_south (OceanSimulation cfg_null))) 1"
proof -
  have c: "first_stop (OceanSimulation cfg_coastal) rnd_half = Some 0"
    by (intro first_stop_Some) simp_all
  have cd: "sample_drop (OceanSimulation cfg_coastal) rnd_half 0 = Inr coastal_drop"
    by (simp add: sample_drop_always_coastal) (simp add: coastal_drop_def)
  have l: "first_stop (OceanSimulation cfg_land) rnd_half = None"
    by (intro first_stop_None) simp
  have "sample_type (OceanSimulation cfg_null) rnd_south 1 = Inl TypeError"
    by (intro sample_drop_Inl) (rule sample_null_off_equator(2))
  then have n: "first_stop (OceanSimulation cfg_null) rnd_south = Some 1"
    by (intro first_stop_Some) (simp_all add: sample_null_off_equator(1))
  have nd: "sample_drop (OceanSimulation cfg_null) rnd_south (Suc 0) = Inl TypeError"
    using sample_null_off_equator(2) by simp
  show ?thesis
    using simulateDay_commit_or_skip[where s = "OceanSimulation cfg_coastal" and rnd = rnd_half]
      simulateDay_commit_or_skip[where s = "OceanSimulation cfg_land" and rnd = rnd_half]
      simulateDay_commit_or_skip[where s = "OceanSimulation cfg_null" and rnd = rnd_south]
    by (simp add: c cd l n nd)
qed

text \<open>
  Claim C3 says that on every driver, also one that was constructed and never reset,
  each recorded \<open>COASTAL\<close> drop increases \<open>stats.coastal\<close> by exactly \<open>1\<close>. The
  constructor's \<open>stats\<close> has no property \<open>coastal\<close> (the one of \<open>reset\<close> has): on
  a new driver the first coastal drop turns the absent property into \<open>NaN\<close>, and only
  after a \<open>reset\<close> does the same day count \<open>1\<close>.
\<close>

theorem fresh_driver_coastal_is_NaN:
  "coastal (stats (OceanSimulation cfg_coastal)) = None \<and>
   locationType (last (drops (fst (simulateDay rnd_half (OceanSimulation cfg_coastal)))))
     = JStr ''COASTAL'' \<and>
   coastal (stats (fst (simulateDay rnd_half (OceanSimulation cfg_coastal)))) = Some NaN \<and>
   coastal (stats (fst (simulateDay rnd_half (reset (OceanSimulation cfg_coastal)))))
     = Some (Fin 1)"
proof -
  have a: "(0::nat) < 100"
    "\<forall>i. i < (0::nat) \<longrightarrow>
       sample_type (OceanSimulation cfg_coastal) rnd_half i = Inr (JStr ''LAND'')"
    "sample_drop (OceanSimulation cfg_coastal) rnd_half 0 = Inr coastal_drop"
    "locationType coastal_drop \<noteq> JStr ''LAND''"
    by (simp_all add: sample_drop_always_coastal) (simp_all add: coastal_drop_def)
  have b: "(0::nat) < 100"
    "\<forall>i. i < (0::nat) \<longrightarrow>
       sample_type (reset (OceanSimulation cfg_coastal)) rnd_half i = Inr (JStr ''LAND'')"
    "sample_drop (reset (OceanSimulation cfg_coastal)) rnd_half 0 = Inr coastal_drop"
    "locationType coastal_drop \<noteq> JStr ''LAND''"
    by (simp_all add: sample_drop_always_coastal) (simp_all add: coastal_drop_def reset_def)
  note f = simulateDay_found[OF a]
  note g = simulateDay_found[OF b]
  have t: "locationType coastal_drop = JStr ''COASTAL''" by (simp add: coastal_drop_def)
  have 1: "coastal (stats (OceanSimulation cfg_coastal)) = None"
    by simp
  have 2: "locationType (last (drops (fst (simulateDay rnd_half (OceanSimulation cfg_coastal)))))
             = JStr ''COASTAL''"
    by (simp add: f(1) t)
  have 3: "coastal (stats (fst (simulateDay rnd_half (OceanSimulation cfg_coastal)))) = Some NaN"
    by (simp add: f(7) t)
  have 4: "coastal (stats (fst (simulateDay rnd_half (reset (OceanSimulation cfg_coastal)))))
             = Some (Fin 1)"
    by (simp add: g(7) t) (simp add: reset_def)
  from 1 2 3 4 show ?thesis by blast
qed

text \<open>
  Claim C4. In every state a driver can reach between two calls (after construction,
  after \<open>reset\<close>, after each completed \<open>simulateDay\<close>, and after \<open>start\<close>,
  \<open>pause\<close>, \<open>setSpeed\<close> and a tick of \<open>loop\<close>), \<open>currentDay\<close> is the length of
  \<open>drops\<close> and \<open>stats.totalAttempts\<close> is at least \<open>currentDay\<close>.
\<close>

theorem day_counter_invariant:
  "reachable s \<Longrightarrow> currentDay s = length (drops s) \<and> currentDay s \<le> totalAttempts (stats s)"
  using reachable_inv[of s] by (simp add: driver_inv_def)

text \<open>C4 at a concrete run: construct, reset, simulate one day.\<close>

theorem day_counter_invariant_witness:
  "reachable (fst (simulateDay rnd_half (reset (OceanSimulation cfg_coastal)))) \<and>
   currentDay (fst (simulateDay rnd_half (reset (OceanSimulation cfg_coastal)))) =
     length (drops (fst (simulateDay rnd_half (reset (OceanSimulation cfg_coastal))))) \<and>
   currentDay (fst (simulateDay rnd_half (reset (OceanSimulation cfg_coastal)))) \<le>
     totalAttempts (stats (fst (simulateDay rnd_half (reset (OceanSimulation cfg_coastal)))))"
proof -
  have r: "reachable (fst (simulateDay rnd_half (reset (OceanSimulation cfg_coastal))))"
    by (intro reachable.intros)
  show ?thesis using r day_counter_invariant[OF r] by simp
qed

text \<open>
  Claim C5. If all \<open>100\<close> attempts of one call of \<open>simulateDay\<close> classify as
  \<open>LAND\<close>, then the call returns, \<open>currentDay\<close> is unchanged, no drop is appended,
  \<open>stats.water\<close>, \<open>stats.coastal\<close> and \<open>stats.avgTemp\<close> are unchanged, and
  \<open>stats.landAttempts\<close> and \<open>stats.totalAttempts\<close> have each increased by exactly
  \<open>100\<close>.
\<close>

theorem all_land_tick_is_noop:
  assumes "\<forall>k<100. sample_type s rnd k = Inr (JStr ''LAND'')"
  shows "snd (simulateDay rnd s) = None \<and>
         currentDay (fst (simulateDay rnd s)) = currentDay s \<and>
         drops (fst (simulateDay rnd s)) = drops s \<and>
         water (stats (fst (simulateDay rnd s))) = water (stats s) \<and>
         coastal (stats (fst (simulateDay rnd s))) = coastal (stats s) \<and>
         avgTemp (stats (fst (simulateDay rnd s))) = avgTemp (stats s) \<and>
         landAttempts (stats (fst (simulateDay rnd s))) = landAttempts (stats s) + 100 \<and>
         totalAttempts (stats (fst (simulateDay rnd s))) = totalAttempts (stats s) + 100"
proof -
  have "simulateDay rnd s = (count_attempts 100 100 s, None)"
    using assms by (intro simulateDay_skipped) simp
  then show ?thesis by simp
qed

text \<open>C5 on a new driver whose land check always answers \<open>LAND\<close>.\<close>

theorem all_land_tick_is_noop_witness:
  "sample_type (OceanSimulation cfg_land) rnd_half 0 = Inr (JStr ''LAND'') \<and>
   sample_type (OceanSimulation cfg_land) rnd_half 99 = Inr (JStr ''LAND'') \<and>
   snd (simulateDay rnd_half (OceanSimulation cfg_land)) = None \<and>
   currentDay (fst (simulateDay rnd_half (OceanSimulation cfg_land))) = 0 \<and>
   drops (fst (simulateDay rnd_half (OceanSimulation cfg_land))) = [] \<and>
   landAttempts (stats (fst (simulateDay rnd_half (OceanSimulation cfg_land)))) = 100 \<and>
   totalAttempts (stats (fst (simulateDay rnd_half (OceanSimulation cfg_land)))) = 100"
proof -
  have h: "\<forall>k<100. sample_type (OceanSimulation cfg_land) rnd_half k = Inr (JStr ''LAND'')"
    by simp
  show ?thesis
    using all_land_tick_is_noop[OF h] by simp
qed

text \<open>
  Claim C6 says that \<open>setSpeed\<close> gives a delay of \<open>200\<close> ms at \<open>s = 1\<close> and of
  \<open>1\<close> ms at \<open>s = 100\<close>, as the comment in \<open>setSpeed\<close> does. The formula
  \<open>200 - (s / 100) * 199\<close> is linear and gives \<open>1\<close> at \<open>s = 100\<close>, but it gives
  \<open>198.01\<close> at \<open>s = 1\<close>: its \<open>200\<close> is reached at \<open>s = 0\<close>, below the range.
\<close>

theorem setSpeed_slowest_is_not_200:
  "delay (setSpeed 1 s) = 19801 / 100 \<and> delay (setSpeed 1 s) \<noteq> 200 \<and>
   delay (setSpeed 100 s) = 1 \<and> delay (setSpeed 0 s) = 200 \<and>
   delay (setSpeed v s) = 200 - (199 / 100) * v"
  by (simp add: setSpeed_def)

text \<open>
  Claim C10, as stated, says that a caller cannot configure a run of zero days. It
  fails at \<open>totalDays: -1\<close>: the value is truthy and is kept, the run has no day, and
  \<open>start\<close> returns with the driver as it was, on a map where every point is water.
\<close>

theorem zero_day_run_counterexample:
  "truthy (cfg_totalDays cfg_minus_one) \<and>
   totalDays (OceanSimulation cfg_minus_one) = JNum (Fin (- 1)) \<and>
   \<not> run_has_days str2num_nan (OceanSimulation cfg_minus_one) \<and>
   start str2num_nan rnd_half (OceanSimulation cfg_minus_one)
     = (OceanSimulation cfg_minus_one, None)"
proof -
  have t: "totalDays (OceanSimulation cfg_minus_one) = JNum (Fin (- 1))"
    by (simp add: OceanSimulation_def cfg_minus_one_def)
  have n: "\<not> run_has_days str2num_nan (OceanSimulation cfg_minus_one)"
    by (simp add: run_has_days_def t)
  show ?thesis
    using t n by (simp add: start_new_driver) (simp add: cfg_minus_one_def)
qed

text \<open>
  Claim C10, amended. Constructing a driver with \<open>config.totalDays\<close> equal to \<open>0\<close>,
  or to any other falsy value, gives \<open>totalDays = 1825\<close>, a run that has days; a
  truthy \<open>config.totalDays\<close> is taken as it is, and its run has days exactly when its
  number is above \<open>0\<close>. On a new driver \<open>start\<close> simulates a day when the run has
  days and does nothing otherwise: a truthy value that is not above \<open>0\<close> configures
  a run of zero days.
\<close>

theorem totalDays_default:
  "(\<not> truthy (cfg_totalDays cfg) \<longrightarrow>
      totalDays (OceanSimulation cfg) = JNum (Fin 1825) \<and>
      run_has_days str2num (OceanSimulation cfg)) \<and>
   (truthy (cfg_totalDays cfg) \<longrightarrow>
      totalDays (OceanSimulation cfg) = cfg_totalDays cfg \<and>
      run_has_days str2num (OceanSimulation cfg)
        = js_lt (Fin 0) (to_number str2num (cfg_totalDays cfg))) \<and>
   start str2num rnd (OceanSimulation cfg) =
     (if run_has_days str2num (OceanSimulation cfg)
      then simulateDay rnd ((OceanSimulation cfg)\<lparr>isRunning := True\<rparr>)
      else (OceanSimulation cfg, None))"
proof -
  have 1: "\<not> truthy (cfg_totalDays cfg) \<longrightarrow>
      totalDays (OceanSimulation cfg) = JNum (Fin 1825) \<and>
      run_has_days str2num (OceanSimulation cfg)"
    by (simp add: OceanSimulation_def run_has_days_def)
  have 2: "truthy (cfg_totalDays cfg) \<longrightarrow>
      totalDays (OceanSimulation cfg) = cfg_totalDays cfg \<and>
      run_has_days str2num (OceanSimulation cfg)
        = js_lt (Fin 0) (to_number str2num (cfg_totalDays cfg))"
    by (simp add: OceanSimulation_def run_has_days_def)
  from 1 2 start_new_driver[where ?str2num = str2num and rnd = rnd and cfg = cfg] show ?thesis by blast
qed

text \<open>
  C10 at \<open>totalDays: 0\<close> (replaced by \<open>1825\<close>; \<open>start\<close> records a drop), at
  \<open>totalDays: 100\<close> (kept; the run has days), and at \<open>totalDays: -1\<close> and
  \<open>totalDays: '0'\<close> (kept; \<open>start\<close> records nothing).
\<close>

theorem totalDays_default_witness:
  "totalDays (OceanSimulation cfg_zero_days) = JNum (Fin 1825) \<and>
   run_has_days str2num_nan (OceanSimulation cfg_zero_days) \<and>
   drops (fst (start str2num_nan rnd_half (OceanSimulation cfg_zero_days))) = [coastal_drop] \<and>
   totalDays (OceanSimulation cfg_coastal) = JNum (Fin 100) \<and>
   run_has_days str2num_nan (OceanSimulation cfg_coastal) \<and>
   totalDays (OceanSimulation cfg_minus_one) = JNum (Fin (- 1)) \<and>
   drops (fst (start str2num_nan rnd_half (OceanSimulation cfg_minus_one))) = [] \<and>
   totalDays (OceanSimulation cfg_string_zero) = JStr ''0'' \<and>
   drops (fst (start str2num_zero rnd_half (OceanSimulation cfg_string_zero))) = []"
proof -
  have f: "\<not> truthy (cfg_totalDays cfg_zero_days)" "truthy (cfg_totalDays cfg_coastal)"
    "truthy (cfg_totalDays cfg_minus_one)" "truthy (cfg_totalDays cfg_string_zero)"
    by (simp_all add: cfg_zero_days_def cfg_coastal_def cfg_minus_one_def cfg_string_zero_def)
  have v: "cfg_totalDays cfg_coastal = JNum (Fin 100)"
    "cfg_totalDays cfg_minus_one = JNum (Fin (- 1))"
    "cfg_totalDays cfg_string_zero = JStr ''0''"
    by (simp_all add: cfg_coastal_def cfg_minus_one_def cfg_string_zero_def)
  have a: "(0::nat) < 100"
    "\<forall>i. i < (0::nat) \<longrightarrow>
       sample_type ((OceanSimulation cfg_zero_days)\<lparr>isRunning := True\<rparr>) rnd_half i
         = Inr (JStr ''LAND'')"
    "sample_drop ((OceanSimulation cfg_zero_days)\<lparr>isRunning := True\<rparr>) rnd_half 0
       = Inr coastal_drop"
    "locationType coastal_drop \<noteq> JStr ''LAND''"
    by (simp_all add: sample_drop_always_coastal) (simp_all add: coastal_drop_def)
  have d: "drops (fst (simulateDay rnd_half ((OceanSimulation cfg_zero_days)\<lparr>isRunning := True\<rparr>)))
             = [coastal_drop]"
    by (simp add: simulateDay_found(1)[OF a])
  show ?thesis
    using totalDays_default[where cfg = cfg_zero_days and ?str2num = str2num_nan and rnd = rnd_half]
      totalDays_default[where cfg = cfg_coastal and ?str2num = str2num_nan and rnd = rnd_half]
      totalDays_default[where cfg = cfg_minus_one and ?str2num = str2num_nan and rnd = rnd_half]
      totalDays_default[where cfg = cfg_string_zero and ?str2num = str2num_zero and rnd = rnd_half]
    by (simp add: f v d str2num_zero_def)
qed

section \<open>Ray casting\<close>

text \<open>
  The loop toggles \<open>inside\<close> once for each crossed edge, and never reports a
  division by zero or a read outside the ring.
\<close>

lemma ray_loop_parity:
  assumes "i \<le> length polygon"
    and "j = (if i = 0 then int (length polygon) - 1 else int i - 1)"
  shows "ray_loop polygon lo la i j inside =
           Inr (inside \<noteq> odd (length (filter (crosses lo la) (drop i (ring_edges polygon)))))"
  using assms
proof (induction "length polygon - i" arbitrary: i j inside)
  case 0
  then have "i = length polygon" by simp
  then show ?case by (subst ray_loop.simps) (simp add: ring_edges_def)
next
  case (Suc n)
  then have lt: "i < length polygon" by simp
  obtain xi yi where pi: "polygon ! i = (xi, yi)" by (cases "polygon ! i")
  define j' where "j' = (if i = 0 then length polygon - 1 else i - 1)"
  have j: "j = int j'" using Suc.prems lt by (auto simp: j'_def)
  have j'lt: "j' < length polygon" using lt by (auto simp: j'_def)
  obtain xj yj where pj: "polygon ! j' = (xj, yj)" by (cases "polygon ! j'")
  have idx: "js_index polygon (int i) = Some (xi, yi)" "js_index polygon j = Some (xj, yj)"
    using lt j'lt by (simp_all add: js_index_def pi pj j)
  have dr: "drop i (ring_edges polygon)
              = ((xi, yi), (xj, yj)) # drop (Suc i) (ring_edges polygon)"
    using lt pj by (auto simp: Cons_nth_drop_Suc[symmetric] ring_edges_def pi j'_def)
  have step: "ray_loop polygon lo la i j inside =
      ray_loop polygon lo la (Suc i) (int i) (inside \<noteq> crosses lo la ((xi, yi), (xj, yj)))"
    by (subst ray_loop.simps) (auto simp: lt idx crosses_def)
  have "ray_loop polygon lo la (Suc i) (int i) b =
          Inr (b \<noteq> odd (length (filter (crosses lo la) (drop (Suc i) (ring_edges polygon)))))"
    for b
    using Suc.hyps(2) lt by (intro Suc.hyps(1)) auto
  then show ?case
    unfolding step dr by auto
qed

lemma isPointInPolygon_parity:
  "isPointInPolygon lo la polygon = Inr (inside_ring lo la polygon)"
  unfolding isPointInPolygon_def inside_ring_def
  by (subst ray_loop_parity) simp_all

lemma polygons_loop_eq:
  "polygons_loop landPolygons lo la = Inr (\<exists>p\<in>set landPolygons. inside_ring lo la p)"
  by (induction landPolygons) (simp_all add: isPointInPolygon_parity)

lemma isOnLandPolygon_eq:
  "isOnLandPolygon landPolygons lo la = Inr (land_test landPolygons lo la)"
  by (simp add: isOnLandPolygon_def land_test_def polygons_loop_eq)

lemma ring_edges_square:
  "ring_edges square_ring =
     [((0, 0), (10, 0)), ((0, 10), (0, 0)), ((10, 10), (0, 10)), ((10, 0), (10, 10))]"
  by (simp add: ring_edges_def square_ring_def upt_rec)

section \<open>The distance to the coast\<close>

text \<open>
  The quantity \<open>a\<close> of the haversine formula lies in \<open>[0, 1]\<close> for all arguments, so
  both square roots are taken of non-negative numbers and the distance is not negative.
\<close>

lemma mix_bounds:
  fixes c e s :: real
  assumes "- 1 \<le> c" "c \<le> 1" "- 1 \<le> e" "e \<le> 1" "0 \<le> s" "s \<le> 1"
  shows "0 \<le> (1 - c) / 2 + (c + e) / 2 * s" and "(1 - c) / 2 + (c + e) / 2 * s \<le> 1"
proof -
  have lo: "(c - 1) / 2 \<le> (c + e) / 2 * s"
  proof (cases "0 \<le> c + e")
    case True
    then have "0 \<le> (c + e) / 2 * s" using assms by simp
    moreover have "(c - 1) / 2 \<le> 0" using assms by simp
    ultimately show ?thesis by linarith
  next
    case False
    then have "(c + e) / 2 * s \<ge> (c + e) / 2 * 1"
      using assms by (intro mult_left_mono_neg) simp_all
    then show ?thesis using assms by simp
  qed
  have hi: "(c + e) / 2 * s \<le> (c + 1) / 2"
  proof (cases "0 \<le> c + e")
    case True
    then have "(c + e) / 2 * s \<le> (c + e) / 2 * 1"
      using assms by (intro mult_left_mono) simp_all
    then show ?thesis using assms by simp
  next
    case False
    then have "(c + e) / 2 * s \<le> 0" using assms by (simp add: mult_le_0_iff)
    moreover have "0 \<le> (c + 1) / 2" using assms by simp
    ultimately show ?thesis by linarith
  qed
  show "0 \<le> (1 - c) / 2 + (c + e) / 2 * s" using lo by (simp add: field_simps)
  show "(1 - c) / 2 + (c + e) / 2 * s \<le> 1" using hi by (simp add: field_simps)
qed

lemma sin_half_squared: "(sin (x / 2))\<^sup>2 = (1 - cos x) / 2" for x :: real
proof -
  have "cos x = cos (2 * (x / 2))" by simp
  also have "\<dots> = 1 - 2 * (sin (x / 2))\<^sup>2" by (rule cos_double_sin)
  finally show ?thesis by simp
qed

lemma cos_product: "cos x * cos y = (cos (x - y) + cos (x + y)) / 2" for x y :: real
  by (simp add: cos_add cos_diff)

lemma haversine_a_range:
  "0 \<le> haversine_a lat1 lon1 lat2 lon2" "haversine_a lat1 lon1 lat2 lon2 \<le> 1"
proof -
  define p1 where "p1 = lat1 * pi / 180"
  define p2 where "p2 = lat2 * pi / 180"
  define s where "s = (sin ((lon2 - lon1) * pi / 180 / 2))\<^sup>2"
  have d: "(lat2 - lat1) * pi / 180 = p2 - p1" by (simp add: p1_def p2_def field_simps)
  have s: "0 \<le> s" "s \<le> 1" by (simp_all add: s_def abs_square_le_1)
  have e1: "(sin ((lat2 - lat1) * pi / 180 / 2))\<^sup>2 = (1 - cos (p2 - p1)) / 2"
    unfolding d by (rule sin_half_squared)
  have "cos (p1 - p2) = cos (p2 - p1)" using cos_minus[of "p2 - p1"] by simp
  then have e2: "cos (lat1 * pi / 180) * cos (lat2 * pi / 180)
                   = (cos (p2 - p1) + cos (p1 + p2)) / 2"
    unfolding p1_def[symmetric] p2_def[symmetric] cos_product by simp
  have a: "haversine_a lat1 lon1 lat2 lon2 =
             (1 - cos (p2 - p1)) / 2 + (cos (p2 - p1) + cos (p1 + p2)) / 2 * s"
    unfolding haversine_a_def Let_def e1 e2 s_def ..
  show "0 \<le> haversine_a lat1 lon1 lat2 lon2" unfolding a
    by (rule mix_bounds) (simp_all add: s)
  show "haversine_a lat1 lon1 lat2 lon2 \<le> 1" unfolding a
    by (rule mix_bounds) (simp_all add: s)
qed

lemma Math_atan2_nonneg: "0 \<le> y \<Longrightarrow> 0 \<le> x \<Longrightarrow> 0 \<le> Math_atan2 y x"
  by (simp add: Math_atan2_def zero_le_arctan_iff)

lemma haversineDistance_eq:
  "haversineDistance lat1 lon1 lat2 lon2 =
     6371 * 2 * Math_atan2 (sqrt (haversine_a lat1 lon1 lat2 lon2))
                           (sqrt (1 - haversine_a lat1 lon1 lat2 lon2))"
  by (simp add: haversineDistance_def haversine_a_def Let_def)

lemma haversineDistance_nonneg: "0 \<le> haversineDistance lat1 lon1 lat2 lon2"
proof -
  have "0 \<le> Math_atan2 (sqrt (haversine_a lat1 lon1 lat2 lon2))
                         (sqrt (1 - haversine_a lat1 lon1 lat2 lon2))"
    using haversine_a_range[of lat1 lon1 lat2 lon2] by (intro Math_atan2_nonneg) simp_all
  then show ?thesis unfolding haversineDistance_eq by simp
qed

lemma pointToSegmentDistance_nonneg:
  "0 \<le> pointToSegmentDistance pLat pLon aLat aLon bLat bLon"
  by (simp add: pointToSegmentDistance_def Let_def haversineDistance_nonneg)

lemma haversineDistance_same [simp]: "haversineDistance 0 0 0 0 = 0"
  by (simp add: haversineDistance_def Math_atan2_def)

text \<open>The loop visits the starts \<open>i, i + 10, \<dots>\<close> and keeps the least distance.\<close>

lemma stride_filter_step:
  assumes "i mod 10 = 0" and "i < m"
  shows "filter (\<lambda>j. j mod 10 = 0) [i..<m] = i # filter (\<lambda>j. j mod 10 = 0) [i + 10..<m]"
proof -
  have none: "filter (\<lambda>j. j mod 10 = 0) [Suc i..<k] = []" if "k \<le> i + 10" for k
  proof -
    have "j mod 10 \<noteq> 0" if "Suc i \<le> j" "j < k" for j
    proof -
      have "j = i + (j - i)" "0 < j - i" "j - i < 10" using that \<open>k \<le> i + 10\<close> by simp_all
      then have "j mod 10 = (j - i) mod 10" using assms(1)
        by (metis add.commute mod_add_right_eq add.right_neutral mod_mod_trivial)
      also have "\<dots> = j - i" using \<open>j - i < 10\<close> by simp
      finally show ?thesis using \<open>0 < j - i\<close> by simp
    qed
    then show ?thesis by (simp add: filter_empty_conv)
  qed
  have rest: "filter (\<lambda>j. j mod 10 = 0) [Suc i..<m] = filter (\<lambda>j. j mod 10 = 0) [i + 10..<m]"
  proof (cases "i + 10 \<le> m")
    case True
    then have "[Suc i..<m] = [Suc i..<i + 10] @ [i + 10..<m]"
      by (metis Suc_leI le_add1 upt_add_eq_append le_Suc_ex add_Suc_right numeral_eq_Suc
            pred_numeral_simps add_Suc)
    then show ?thesis by (simp add: none)
  next
    case False
    then show ?thesis by (simp add: none)
  qed
  show ?thesis using assms rest by (simp add: upt_conv_Cons)
qed

lemma coast_loop_fold:
  assumes "i mod 10 = 0"
  shows "coast_loop coords la lo i m =
           Inr (fold keep_min
                  (map (segment_distance coords la lo)
                     (filter (\<lambda>j. j mod 10 = 0) [i..<length coords - 1])) m)"
  using assms
proof (induction "length coords - i" arbitrary: i m rule: less_induct)
  case less
  show ?case
  proof (cases "int i < int (length coords) - 1")
    case False
    then have "[i..<length coords - 1] = []" by simp
    with False show ?thesis by (subst coast_loop.simps) simp
  next
    case True
    then have lt: "i < length coords - 1" "i < length coords" by simp_all
    define k where "k = min (i + 10) (length coords - 1)"
    have k: "min (int i + 10) (int (length coords) - 1) = int k" "k < length coords"
      using lt by (auto simp: k_def min_def)
    obtain aLon aLat where a: "coords ! i = (aLon, aLat)" by (cases "coords ! i")
    obtain bLon bLat where b: "coords ! k = (bLon, bLat)" by (cases "coords ! k")
    have idx: "js_index coords (int i) = Some (aLon, aLat)"
      "js_index coords (min (int i + 10) (int (length coords) - 1)) = Some (bLon, bLat)"
      using lt k(2) unfolding k(1) by (simp_all add: js_index_def a b)
    have sd: "pointToSegmentDistance la lo aLat aLon bLat bLon = segment_distance coords la lo i"
      unfolding segment_distance_def k_def[symmetric] by (simp add: a b)
    have step: "coast_loop coords la lo i m =
        coast_loop coords la lo (i + 10) (keep_min (segment_distance coords la lo i) m)"
      by (subst coast_loop.simps) (simp add: True idx Let_def sd keep_min_def)
    have "(i + 10) mod 10 = 0" using less.prems by simp
    then have IH: "coast_loop coords la lo (i + 10) m' =
           Inr (fold keep_min
                  (map (segment_distance coords la lo)
                     (filter (\<lambda>j. j mod 10 = 0) [i + 10..<length coords - 1])) m')" for m'
      using lt by (intro less.hyps) simp_all
    show ?thesis
      unfolding step IH stride_filter_step[OF less.prems lt(1)] by simp
  qed
qed

lemma fold_keep_min_Fin:
  "fold keep_min ds (Fin x) = Fin (Min (insert x (set ds)))"
proof (induction ds arbitrary: x)
  case Nil
  show ?case by simp
next
  case (Cons d ds)
  have "keep_min d (Fin x) = Fin (min d x)" by (simp add: keep_min_def min_def)
  moreover have "Min (insert (min d x) (set ds)) = Min (insert x (insert d (set ds)))"
  proof (cases "set ds = {}")
    case True
    then show ?thesis by (simp add: min.commute)
  next
    case False
    then show ?thesis by (simp add: min.assoc min.left_commute min.commute)
  qed
  ultimately show ?case by (simp add: Cons.IH)
qed

lemma fold_keep_min_PosInf:
  "fold keep_min ds PosInf = (if ds = [] then PosInf else Fin (Min (set ds)))"
proof (cases ds)
  case Nil
  then show ?thesis by simp
next
  case (Cons d ds')
  have "keep_min d PosInf = Fin d" by (simp add: keep_min_def)
  then show ?thesis by (simp add: Cons fold_keep_min_Fin)
qed

lemma getDistanceToCoast_eq:
  "getDistanceToCoast coastlineCoords la lo = Inr (min_sampled_distance coastlineCoords la lo)"
proof (cases coastlineCoords)
  case None
  then show ?thesis by (simp add: getDistanceToCoast_def min_sampled_distance_def)
next
  case (Some coords)
  have "coast_loop coords la lo 0 PosInf
          = Inr (fold keep_min (sampled_distances coords la lo) PosInf)"
    by (subst coast_loop_fold) (simp_all add: sampled_distances_def sample_starts_def)
  then show ?thesis
    by (simp add: Some getDistanceToCoast_def min_sampled_distance_def fold_keep_min_PosInf)
qed

lemma segment_distance_nonneg: "0 \<le> segment_distance coords la lo i"
  by (simp add: segment_distance_def pointToSegmentDistance_nonneg split: prod.splits)

lemma min_sampled_distance_nonneg:
  "js_le (Fin 0) (min_sampled_distance coastlineCoords la lo)"
proof (cases coastlineCoords)
  case None
  then show ?thesis by (simp add: min_sampled_distance_def)
next
  case (Some coords)
  show ?thesis
  proof (cases "sampled_distances coords la lo = []")
    case True
    then show ?thesis by (simp add: Some min_sampled_distance_def)
  next
    case False
    have "\<forall>d\<in>set (sampled_distances coords la lo). 0 \<le> d"
      by (auto simp: sampled_distances_def segment_distance_nonneg)
    then have "0 \<le> Min (set (sampled_distances coords la lo))" using False by simp
    then show ?thesis using False by (simp add: Some min_sampled_distance_def)
  qed
qed

text \<open>An edge whose two ends have the same latitude leaves \<open>inside\<close> as it is.\<close>

lemma ray_loop_horizontal:
  assumes "i < length polygon" "j < length polygon" "snd (polygon ! i) = snd (polygon ! j)"
  shows "ray_loop polygon lo la i (int j) inside = ray_loop polygon lo la (Suc i) (int i) inside"
proof -
  obtain xi yi where pi: "polygon ! i = (xi, yi)" by (cases "polygon ! i")
  obtain xj yj where pj: "polygon ! j = (xj, yj)" by (cases "polygon ! j")
  have idx: "js_index polygon (int i) = Some (xi, yi)" "js_index polygon (int j) = Some (xj, yj)"
    using assms by (simp_all add: js_index_def pi pj)
  have "yi = yj" using assms(3) by (simp add: pi pj)
  then show ?thesis
    by (subst ray_loop.simps) (simp add: assms(1) idx)
qed

lemma min_sampled_distance_examples:
  "min_sampled_distance None la lo = PosInf"
  "min_sampled_distance (Some []) la lo = PosInf"
  "min_sampled_distance (Some origin_pair) 0 0 = Fin 0"
proof -
  have s: "sampled_distances origin_pair 0 0 = [0]"
    by (simp add: sampled_distances_def sample_starts_def origin_pair_def segment_distance_def
          pointToSegmentDistance_def)
  show "min_sampled_distance None la lo = PosInf"
    by (simp add: min_sampled_distance_def)
  show "min_sampled_distance (Some []) la lo = PosInf"
    by (simp add: min_sampled_distance_def sampled_distances_def sample_starts_def)
  show "min_sampled_distance (Some origin_pair) 0 0 = Fin 0"
    by (simp add: min_sampled_distance_def s)
qed

lemma land_test_examples:
  "land_test [square_ring] 5 5" "\<not> land_test [square_ring] 50 50"
  "land_test [] 0 (- 85)" "\<not> land_test [] 0 0"
  by (simp_all add: land_test_def inside_ring_def ring_edges_square crosses_def)

section \<open>Claims about the geometry\<close>

text \<open>
  Claim C7. For every query point \<open>getTerrainTypeWithDistance\<close> returns, in this
  order: \<open>LAND\<close> with \<open>distanceKm = 0\<close> when the polygon land test succeeds;
  otherwise, with the distance to the coast, \<open>COASTAL\<close> when it is at most \<open>1\<close>,
  \<open>SHELF\<close> when at most \<open>100\<close>, \<open>FAR\<close> when at most \<open>300\<close>, and
  \<open>DEEP_OCEAN\<close> else. The boundary values \<open>1\<close>, \<open>100\<close> and \<open>300\<close> fall into
  the lower bucket.
\<close>

theorem zone_classification:
  "getTerrainTypeWithDistance coastlineCoords landPolygons lo la =
     Inr (zone_rule (land_test landPolygons lo la) (min_sampled_distance coastlineCoords la lo)) \<and>
   zone_rule True d = TerrainObj (JStr ''LAND'') (JNum (Fin 0)) \<and>
   zone_rule False (Fin 1) = TerrainObj (JStr ''COASTAL'') (JNum (Fin 1)) \<and>
   zone_rule False (Fin 100) = TerrainObj (JStr ''SHELF'') (JNum (Fin 100)) \<and>
   zone_rule False (Fin 300) = TerrainObj (JStr ''FAR'') (JNum (Fin 300)) \<and>
   zone_rule False (Fin (1 / 2)) = TerrainObj (JStr ''COASTAL'') (JNum (Fin (1 / 2))) \<and>
   zone_rule False (Fin 50) = TerrainObj (JStr ''SHELF'') (JNum (Fin 50)) \<and>
   zone_rule False (Fin 200) = TerrainObj (JStr ''FAR'') (JNum (Fin 200)) \<and>
   zone_rule False (Fin 1000) = TerrainObj (JStr ''DEEP_OCEAN'') (JNum (Fin 1000)) \<and>
   zone_rule False PosInf = TerrainObj (JStr ''DEEP_OCEAN'') (JNum PosInf)"
proof -
  have "getTerrainTypeWithDistance coastlineCoords landPolygons lo la =
     Inr (zone_rule (land_test landPolygons lo la) (min_sampled_distance coastlineCoords la lo))"
    by (simp add: getTerrainTypeWithDistance_def getDistanceToCoast_eq isOnLandPolygon_eq
          zone_rule_def ZONE_COASTAL_KM_def ZONE_SHELF_KM_def ZONE_FAR_KM_def)
  then show ?thesis by (simp add: zone_rule_def)
qed

text \<open>
  C7 at concrete points: inside the square ring, outside it with no coastline loaded,
  on a loaded coastline, and south of \<open>-80\<close> degrees.
\<close>

theorem zone_classification_witness:
  "getTerrainTypeWithDistance None [square_ring] 5 5
     = Inr (TerrainObj (JStr ''LAND'') (JNum (Fin 0))) \<and>
   getTerrainTypeWithDistance None [square_ring] 50 50
     = Inr (TerrainObj (JStr ''DEEP_OCEAN'') (JNum PosInf)) \<and>
   getTerrainTypeWithDistance (Some origin_pair) [] 0 0
     = Inr (TerrainObj (JStr ''COASTAL'') (JNum (Fin 0))) \<and>
   getTerrainTypeWithDistance None [] 0 (- 85)
     = Inr (TerrainObj (JStr ''LAND'') (JNum (Fin 0)))"
  using zone_classification[of None "[square_ring]" 5 5]
    zone_classification[of None "[square_ring]" 50 50]
    zone_classification[of "Some origin_pair" "[]" 0 0]
    zone_classification[of None "[]" 0 "- 85"]
  by (simp add: land_test_examples min_sampled_distance_examples zone_rule_def)

text \<open>
  Claim C8. For every query point \<open>getDistanceToCoast\<close> returns \<open>Infinity\<close> when
  no coastline data is loaded, and otherwise the least of the distances from the point
  to the sampled segments of the coastline point stream (\<open>Infinity\<close> when the stream
  has no segment). The loop never reads outside the stream, so the call always returns,
  and what it returns is not negative.
\<close>

theorem distance_to_coast_total:
  "getDistanceToCoast None la lo = Inr PosInf \<and>
   getDistanceToCoast coastlineCoords la lo = Inr (min_sampled_distance coastlineCoords la lo) \<and>
   js_le (Fin 0) (min_sampled_distance coastlineCoords la lo)"
proof -
  have "getDistanceToCoast None la lo = Inr PosInf"
    by (simp add: getDistanceToCoast_def)
  then show ?thesis
    using getDistanceToCoast_eq[of coastlineCoords la lo]
      min_sampled_distance_nonneg[of coastlineCoords la lo]
    by simp
qed

text \<open>C8 with no data, with an empty stream, and with a stream of two equal points.\<close>

theorem distance_to_coast_total_witness:
  "getDistanceToCoast None 0 0 = Inr PosInf \<and>
   getDistanceToCoast (Some []) 0 0 = Inr PosInf \<and>
   getDistanceToCoast (Some origin_pair) 0 0 = Inr (Fin 0)"
  using distance_to_coast_total[of 0 0 "Some origin_pair"]
    distance_to_coast_total[of 0 0 "Some []"]
  by (simp add: min_sampled_distance_examples)

text \<open>
  Claim C9. For every ring and query point, \<open>isPointInPolygon\<close> returns the parity
  of the number of crossed edges and never divides by zero: the division by
  \<open>yj - yi\<close> is evaluated only when exactly one of \<open>yi > lat\<close> and \<open>yj > lat\<close>
  holds, and then \<open>yi\<close> and \<open>yj\<close> differ. A horizontal edge (\<open>yi = yj\<close>) is not a
  crossing, and the iteration of the loop that meets it leaves \<open>inside\<close> as it is.
\<close>

theorem ray_casting_no_division_by_zero:
  "isPointInPolygon lo la polygon = Inr (inside_ring lo la polygon) \<and>
   isPointInPolygon lo la polygon \<noteq> Inl DivisionByZero \<and>
   (\<forall>e\<in>set (ring_edges polygon). snd (fst e) = snd (snd e) \<longrightarrow> \<not> crosses lo la e) \<and>
   (\<forall>e\<in>set (ring_edges polygon).
      (snd (fst e) > la) \<noteq> (snd (snd e) > la) \<longrightarrow> snd (snd e) - snd (fst e) \<noteq> 0) \<and>
   (i < length polygon \<and> j < length polygon \<and> snd (polygon ! i) = snd (polygon ! j) \<longrightarrow>
      ray_loop polygon lo la i (int j) inside = ray_loop polygon lo la (Suc i) (int i) inside)"
proof -
  have 1: "isPointInPolygon lo la polygon = Inr (inside_ring lo la polygon)"
    by (rule isPointInPolygon_parity)
  have 2: "\<forall>e\<in>set (ring_edges polygon). snd (fst e) = snd (snd e) \<longrightarrow> \<not> crosses lo la e"
    by (auto simp: crosses_def)
  have 3: "\<forall>e\<in>set (ring_edges polygon).
      (snd (fst e) > la) \<noteq> (snd (snd e) > la) \<longrightarrow> snd (snd e) - snd (fst e) \<noteq> 0"
    by auto
  have 4: "i < length polygon \<and> j < length polygon \<and> snd (polygon ! i) = snd (polygon ! j) \<longrightarrow>
      ray_loop polygon lo la i (int j) inside = ray_loop polygon lo la (Suc i) (int i) inside"
    using ray_loop_horizontal[of i polygon j lo la inside] by blast
  from 1 2 3 4 show ?thesis by simp
qed

text \<open>
  C9 on the square ring and the point \<open>(5, 5)\<close>: the point is inside; the bottom edge
  is horizontal and not crossed, and the first iteration of the loop, which meets it,
  keeps \<open>inside\<close>; the right edge is crossed.
\<close>

theorem ray_casting_no_division_by_zero_witness:
  "isPointInPolygon 5 5 square_ring = Inr True \<and>
   ((0, 0), (10, 0)) \<in> set (ring_edges square_ring) \<and>
   \<not> crosses 5 5 ((0, 0), (10, 0)) \<and>
   ((10, 0), (10, 10)) \<in> set (ring_edges square_ring) \<and>
   crosses 5 5 ((10, 0), (10, 10)) \<and>
   ray_loop square_ring 5 5 0 3 False = ray_loop square_ring 5 5 1 0 False"
proof -
  have i: "inside_ring 5 5 square_ring"
    by (simp add: inside_ring_def ring_edges_square crosses_def)
  have c: "crosses 5 5 ((10, 0), (10, 10))" by (simp add: crosses_def)
  have h: "(0::nat) < length square_ring \<and> (3::nat) < length square_ring \<and>
           snd (square_ring ! 0) = snd (square_ring ! 3)"
    by (simp add: square_ring_def)
  show ?thesis
    using ray_casting_no_division_by_zero[of 5 5 square_ring 0 3 False] i c h
    by (simp add: ring_edges_square)
qed

end
